theory Spec2Isabelle
  imports Main "HOL-Library.Multiset" "HOL-Library.Sublist"
begin

section \<open>MealMD: the scoring engine and the recommender of \<^verbatim>\<open>mealmd_wizard.py\<close>\<close>

text \<open>
  The development embeds the core of \<^verbatim>\<open>src/mealmd_wizard.py\<close>: the dataclass
  \<^verbatim>\<open>Meal\<close>, the catalog \<^verbatim>\<open>MEALS\<close>, the table \<^verbatim>\<open>WEIGHTS\<close>, and the functions
  \<^verbatim>\<open>score_meal\<close> and \<^verbatim>\<open>recommend\<close>.

  Conventions of the embedding.
  \<^item> Python strings are \<open>string\<close>; every string of the source is ASCII. The enum-like
    fields stay strings, as in the source, so that values outside the intended enums
    can be written down.
  \<^item> The running score starts at the float \<^verbatim>\<open>50.0\<close> and only ever has the integer
    weights of \<^verbatim>\<open>WEIGHTS\<close> and the literals 2 and 3 added or subtracted; the sentinel
    is the integer \<^verbatim>\<open>-999\<close>. All these values are integers far below \<open>2^53\<close>, on
    which double arithmetic and the comparison \<^verbatim>\<open>s > -500\<close> are exact, so the score is
    an \<open>int\<close>, and \<^verbatim>\<open>round(s, 1)\<close> returns the score it is given.
  \<^item> The answer dictionary is a record with the seven keys that \<^verbatim>\<open>score_meal\<close> reads
    (the wizard always builds all seven); its values are strings, and \<^verbatim>\<open>avoids\<close> a
    list of strings. The source only ever tests these values for equality with strings,
    so a value of another type behaves as a string that equals none of them.
\<close>

subsection \<open>Data\<close>

record Meal =
  name :: string
  items :: "string list"
  calories :: int
  protein_g :: int
  carbs_g :: int
  fat_g :: int
  sodium_mg :: int
  calcium_mg :: int
  protein_type :: string
  allergens :: "string list"
  effort :: string
  takeout_ok :: bool
  spice :: string
  meal_notes :: "string list"

text \<open>(The field \<^verbatim>\<open>notes\<close> of the dataclass is \<open>meal_notes\<close>: \<open>notes\<close> is a keyword.)
  The dictionary \<^verbatim>\<open>ans\<close>; the key \<^verbatim>\<open>effort\<close> is written \<open>AnswerSet.effort\<close> where
  it has to be told apart from the field of a meal.\<close>

record AnswerSet =
  goal :: string
  timing :: string
  protein_pref :: string
  avoids :: "string list"
  effort :: string
  sodium_pref :: string
  spice_pref :: string

text \<open>The table \<^verbatim>\<open>WEIGHTS\<close>: one field for each key, so that a lookup cannot miss.\<close>

record Weights =
  match_protein_pref :: int
  mismatch_protein_pref :: int
  plant_only_penalty :: int
  fish_pref_bonus :: int
  goal_cut :: int
  goal_bulk :: int
  goal_maint :: int
  fat_penalty_cut :: int
  pre_low_fat :: int
  pre_good_carbs :: int
  pre_mod_protein :: int
  post_protein :: int
  post_carbs :: int
  post_low_fat :: int
  effort_low_bonus :: int
  effort_low_penalty :: int
  effort_med_bonus :: int
  effort_high_bonus :: int
  effort_restaurant_bonus :: int
  effort_restaurant_penalty :: int
  sodium_low_bonus :: int
  sodium_high_penalty :: int
  sodium_too_high_penalty :: int
  spice_match_bonus :: int

definition WEIGHTS :: Weights where
  "WEIGHTS = \<lparr>
     match_protein_pref = 8,
     mismatch_protein_pref = 4,
     plant_only_penalty = 30,
     fish_pref_bonus = 6,
     goal_cut = 10,
     goal_bulk = 10,
     goal_maint = 5,
     fat_penalty_cut = 4,
     pre_low_fat = 6,
     pre_good_carbs = 4,
     pre_mod_protein = 3,
     post_protein = 6,
     post_carbs = 4,
     post_low_fat = 2,
     effort_low_bonus = 6,
     effort_low_penalty = 3,
     effort_med_bonus = 3,
     effort_high_bonus = 4,
     effort_restaurant_bonus = 5,
     effort_restaurant_penalty = 4,
     sodium_low_bonus = 5,
     sodium_high_penalty = 6,
     sodium_too_high_penalty = 2,
     spice_match_bonus = 2 \<rparr>"

subsection \<open>The catalog\<close>

text \<open>The constructor call \<^verbatim>\<open>Meal(...)\<close> with its fourteen positional arguments.\<close>

definition mk_meal ::
  "string \<Rightarrow> string list \<Rightarrow> int \<Rightarrow> int \<Rightarrow> int \<Rightarrow> int \<Rightarrow> int \<Rightarrow> int \<Rightarrow> string \<Rightarrow>
   string list \<Rightarrow> string \<Rightarrow> bool \<Rightarrow> string \<Rightarrow> string list \<Rightarrow> Meal" where
  "mk_meal n its cal p c f na ca pt al ef tk sp nts =
     \<lparr> name = n, items = its, calories = cal, protein_g = p, carbs_g = c, fat_g = f,
       sodium_mg = na, calcium_mg = ca, protein_type = pt, allergens = al,
       Meal.effort = ef, takeout_ok = tk, spice = sp, meal_notes = nts \<rparr>"

definition grilled_salmon_bowl :: Meal where
  "grilled_salmon_bowl = mk_meal ''Grilled Salmon Bowl''
     [''grilled salmon 5 oz'', ''quinoa 1 cup'', ''spinach'', ''tomato'', ''olive oil'',
      ''lemon'', ''plain yogurt 1/2 cup'']
     650 45 55 24 520 250 ''fish'' [''dairy''] ''med'' True ''mild'' [''Omega-3s'']"

definition chicken_thigh_plate :: Meal where
  "chicken_thigh_plate = mk_meal ''Chicken Thigh + Sweet Potato Plate''
     [''roasted chicken thigh 6 oz'', ''baked sweet potato'', ''steamed broccoli'',
      ''tahini drizzle'']
     620 42 62 18 480 180 ''poultry'' [''sesame''] ''med'' True ''mild'' [''balanced'']"

definition tofu_stir_fry :: Meal where
  "tofu_stir_fry = mk_meal ''Tofu Stir-Fry''
     [''extra-firm tofu 6 oz'', ''mixed vegetables'', ''brown rice 1 cup'',
      ''garlic-ginger sauce (low sodium)'']
     600 36 70 16 420 350 ''plant'' [''soy'', ''gluten?''] ''low'' False ''medium''
     [''plant protein'']"

definition lentil_curry_rice :: Meal where
  "lentil_curry_rice = mk_meal ''Lentil Curry + Rice''
     [''red lentil curry 1.5 cups'', ''basmati rice 1 cup'', ''cucumber salad'']
     680 32 98 16 540 140 ''plant'' [] ''med'' True ''medium'' [''good fiber'']"

definition turkey_chili :: Meal where
  "turkey_chili = mk_meal ''Turkey Chili (Lean)''
     [''ground turkey 93% 6 oz'', ''beans'', ''tomato'', ''onion'', ''spices'']
     640 48 58 18 620 160 ''poultry'' [] ''med'' True ''medium'' [''high protein'']"

definition beef_steak_plate :: Meal where
  "beef_steak_plate = mk_meal ''Beef Steak Plate''
     [''sirloin steak 6 oz'', ''roasted potatoes'', ''asparagus'', ''butter'']
     720 50 46 30 540 60 ''beef'' [''dairy?''] ''high'' True ''mild'' [''creatine-rich'']"

definition egg_white_omelet :: Meal where
  "egg_white_omelet = mk_meal ''Egg White Veggie Omelet + Oats''
     [''egg white omelet (4 whites)'', ''mixed veggies'', ''rolled oats 1 cup'', ''berries'']
     520 36 66 8 420 180 ''plant'' [''eggs'', ''gluten?''] ''low'' False ''mild'' [''light'']"

definition greek_yogurt_bowl :: Meal where
  "greek_yogurt_bowl = mk_meal ''Greek Yogurt Power Bowl''
     [''plain Greek yogurt 1.5 cups'', ''berries'', ''chia seeds'', ''walnuts'', ''honey'']
     580 42 48 20 180 450 ''plant'' [''dairy'', ''nuts''] ''low'' False ''mild'' [''easy'']"

definition sardine_avocado_toast :: Meal where
  "sardine_avocado_toast = mk_meal ''Sardine Avocado Toast''
     [''whole-grain toast 2 slices'', ''sardines in olive oil 1 tin'', ''avocado'', ''lemon'']
     560 32 44 28 520 320 ''fish'' [''gluten?'', ''fish''] ''low'' True ''mild'' [''omega-3s'']"

definition tempeh_buddha_bowl :: Meal where
  "tempeh_buddha_bowl = mk_meal ''Tempeh Buddha Bowl''
     [''tempeh 6 oz'', ''farro 1 cup'', ''kale'', ''roasted peppers'', ''tahini-lemon'']
     620 38 70 16 460 220 ''plant'' [''soy'', ''sesame''] ''med'' False ''mild'' [''fermented'']"

definition shrimp_rice_bowl :: Meal where
  "shrimp_rice_bowl = mk_meal ''Shrimp Rice Bowl''
     [''shrimp 6 oz'', ''jasmine rice 1 cup'', ''cabbage slaw'', ''lime'', ''olive oil'']
     600 42 64 14 640 160 ''shellfish'' [''shellfish''] ''low'' True ''mild'' [''lean protein'']"

definition chickpea_pasta :: Meal where
  "chickpea_pasta = mk_meal ''Chickpea Pasta Primavera''
     [''chickpea pasta 3 oz dry'', ''zucchini'', ''tomato'', ''olive oil'', ''basil'']
     580 34 70 14 380 120 ''plant'' [] ''low'' False ''mild'' [''high fiber'']"

definition MEALS :: "Meal list" where
  "MEALS = [grilled_salmon_bowl, chicken_thigh_plate, tofu_stir_fry, lentil_curry_rice,
     turkey_chili, beef_steak_plate, egg_white_omelet, greek_yogurt_bowl,
     sardine_avocado_toast, tempeh_buddha_bowl, shrimp_rice_bowl, chickpea_pasta]"

subsection \<open>The scoring rules of \<^verbatim>\<open>score_meal\<close>\<close>

text \<open>
  \<^verbatim>\<open>score_meal\<close> updates two local variables, \<^verbatim>\<open>score\<close> and \<^verbatim>\<open>reasons\<close>, block by
  block. Each commented block of the source is one function on the pair of the two
  variables: \<^verbatim>\<open>score += w\<close> and \<^verbatim>\<open>reasons.append(r)\<close> are the updates of its
  components, and a block that executes no statement returns the pair as it is.
\<close>

type_synonym running = "int \<times> string list"

text \<open>\<^verbatim>\<open>any(a in meal.allergens for a in avoids)\<close>, with \<^verbatim>\<open>avoids = set(ans["avoids"])\<close>:
  the strings are compared as they are written.\<close>

definition conflicts :: "Meal \<Rightarrow> AnswerSet \<Rightarrow> bool" where
  "conflicts meal ans = list_ex (\<lambda>a. a \<in> set (allergens meal)) (remdups (avoids ans))"

definition protein_rule :: "Meal \<Rightarrow> string \<Rightarrow> running \<Rightarrow> running" where
  "protein_rule meal pref = (\<lambda>(score, reasons).
     if pref = ''no-preference'' then (score, reasons)
     else if pref = ''plant-only'' then
       (if protein_type meal \<noteq> ''plant''
        then (score - plant_only_penalty WEIGHTS, reasons @ [''prefers plant-only''])
        else (score, reasons))
     else if pref = ''fish/seafood'' then
       (if protein_type meal \<notin> set [''fish'', ''shellfish'']
        then (score - mismatch_protein_pref WEIGHTS, reasons)
        else (score + fish_pref_bonus WEIGHTS,
              reasons @ [''matches fish/seafood preference'']))
     else
       (if protein_type meal = pref
        then (score + match_protein_pref WEIGHTS, reasons @ [''matches protein preference''])
        else (score - mismatch_protein_pref WEIGHTS, reasons)))"

definition goal_rule :: "Meal \<Rightarrow> string \<Rightarrow> running \<Rightarrow> running" where
  "goal_rule meal g = (\<lambda>(score, reasons).
     if g = ''cut'' then
       (let (score, reasons) =
              (if calories meal \<le> 600 \<and> protein_g meal \<ge> 35
               then (score + goal_cut WEIGHTS,
                     reasons @ [''cut: high protein, moderate calories''])
               else (score, reasons));
            score = (if fat_g meal > 22 then score - fat_penalty_cut WEIGHTS else score)
        in (score, reasons))
     else if g = ''bulk'' then
       (if calories meal \<ge> 650 \<and> protein_g meal \<ge> 40
        then (score + goal_bulk WEIGHTS, reasons @ [''bulk: higher cals & protein''])
        else if calories meal < 600 then (score - 3, reasons)
        else (score, reasons))
     else
       (if 500 \<le> calories meal \<and> calories meal \<le> 700
        then (score + goal_maint WEIGHTS, reasons @ [''maintenance-friendly calories''])
        else (score, reasons)))"

definition timing_rule :: "Meal \<Rightarrow> string \<Rightarrow> running \<Rightarrow> running" where
  "timing_rule meal t = (\<lambda>(score, reasons).
     if t = ''pre'' then
       (let (score, reasons) =
              (if fat_g meal \<le> 20
               then (score + pre_low_fat WEIGHTS, reasons @ [''pre: lighter fat''])
               else (score - pre_low_fat WEIGHTS, reasons));
            (score, reasons) =
              (if 40 \<le> carbs_g meal \<and> carbs_g meal \<le> 90
               then (score + pre_good_carbs WEIGHTS, reasons @ [''pre: good carbs''])
               else (score, reasons));
            score = (if 25 \<le> protein_g meal \<and> protein_g meal \<le> 40
                     then score + pre_mod_protein WEIGHTS else score)
        in (score, reasons))
     else if t = ''post'' then
       (let (score, reasons) =
              (if protein_g meal \<ge> 35
               then (score + post_protein WEIGHTS, reasons @ [''post: protein for recovery''])
               else (score, reasons));
            score = (if carbs_g meal \<ge> 50 then score + post_carbs WEIGHTS else score);
            score = (if fat_g meal \<le> 20 then score + post_low_fat WEIGHTS else score)
        in (score, reasons))
     else (score, reasons))"

definition effort_rule :: "Meal \<Rightarrow> string \<Rightarrow> running \<Rightarrow> running" where
  "effort_rule meal e = (\<lambda>(score, reasons).
     if e = ''low'' then
       (if Meal.effort meal = ''low''
        then (score + effort_low_bonus WEIGHTS, reasons @ [''low effort prep''])
        else (score - effort_low_penalty WEIGHTS, reasons))
     else if e = ''med'' then
       (if Meal.effort meal \<in> set [''low'', ''med'']
        then (score + effort_med_bonus WEIGHTS, reasons)
        else (score, reasons))
     else if e = ''high'' then
       (if Meal.effort meal = ''high''
        then (score + effort_high_bonus WEIGHTS, reasons)
        else (score - 2, reasons))
     else if e = ''restaurant'' then
       (if takeout_ok meal
        then (score + effort_restaurant_bonus WEIGHTS,
              reasons @ [''restaurant/takeout friendly''])
        else (score - effort_restaurant_penalty WEIGHTS, reasons))
     else (score, reasons))"

definition sodium_rule :: "Meal \<Rightarrow> string \<Rightarrow> running \<Rightarrow> running" where
  "sodium_rule meal pref = (\<lambda>(score, reasons).
     if pref = ''lower'' then
       (if sodium_mg meal \<le> 500
        then (score + sodium_low_bonus WEIGHTS, reasons @ [''lower sodium''])
        else if sodium_mg meal > 700 then (score - sodium_high_penalty WEIGHTS, reasons)
        else (score, reasons))
     else
       (if sodium_mg meal > 850 then (score - sodium_too_high_penalty WEIGHTS, reasons)
        else (score, reasons)))"

definition spice_rule :: "Meal \<Rightarrow> string \<Rightarrow> running \<Rightarrow> running" where
  "spice_rule meal pref = (\<lambda>(score, reasons).
     if pref \<noteq> ''no-pref'' \<and> spice meal = pref
     then (score + spice_match_bonus WEIGHTS, reasons)
     else (score, reasons))"

text \<open>The two \<^verbatim>\<open>flags.append\<close> statements at the end of \<^verbatim>\<open>score_meal\<close>.\<close>

definition advisory_flags :: "Meal \<Rightarrow> string list" where
  "advisory_flags meal =
     (if ''gluten?'' \<in> set (allergens meal) then [''gluten depends on ingredients''] else []) @
     (if ''dairy?'' \<in> set (allergens meal) then [''omit butter to be dairy-free''] else [])"

definition score_meal :: "Meal \<Rightarrow> AnswerSet \<Rightarrow> int \<times> string list \<times> string list" where
  "score_meal meal ans =
     (if conflicts meal ans
      then (- 999, [''conflicts with avoidances''], [''contains allergen''])
      else
        (let (score, reasons) =
               spice_rule meal (spice_pref ans)
                (sodium_rule meal (sodium_pref ans)
                  (effort_rule meal (AnswerSet.effort ans)
                    (timing_rule meal (timing ans)
                      (goal_rule meal (goal ans)
                        (protein_rule meal (protein_pref ans) (50, []))))))
         in (score, reasons, advisory_flags meal)))"

subsection \<open>The recommender\<close>

text \<open>
  \<^verbatim>\<open>recommend\<close> reads two pieces of process-global state: the module-level list
  \<^verbatim>\<open>MEALS\<close>, and the hidden generator of the module \<^verbatim>\<open>random\<close>, which
  \<^verbatim>\<open>random.seed\<close> overwrites and \<^verbatim>\<open>random.shuffle\<close> advances. Both are components
  of an explicit state that \<^verbatim>\<open>recommend\<close> takes and returns; the catalog starts as
  \<open>MEALS\<close>.
\<close>

record 'g World =
  catalog :: "Meal list"
  rng :: 'g

text \<open>The tuples \<^verbatim>\<open>(s, m, r, f)\<close> of the list \<^verbatim>\<open>scored\<close>.\<close>

type_synonym scored_entry = "int \<times> Meal \<times> string list \<times> string list"

text \<open>
  The standard library's \<^verbatim>\<open>random\<close> is not code of the program, so it is a parameter:
  \<open>random_seed s\<close> is the generator state that \<^verbatim>\<open>random.seed(s)\<close> installs for an
  integer \<open>s\<close> (it depends on nothing but \<open>s\<close>), and \<open>random_shuffle g xs\<close> is the list
  that \<^verbatim>\<open>random.shuffle\<close> leaves in place of \<open>xs\<close> when the generator is in state
  \<open>g\<close>, with the generator's state afterwards. The library's contract, that the shuffled
  list is a permutation of the list, is the predicate \<open>shuffle_permutes\<close>; a theorem
  that needs it says so.
\<close>

record 'g Random =
  random_seed :: "int \<Rightarrow> 'g"
  random_shuffle :: "'g \<Rightarrow> scored_entry list \<Rightarrow> scored_entry list \<times> 'g"

definition shuffle_permutes :: "'g Random \<Rightarrow> bool" where
  "shuffle_permutes R = (\<forall>g xs. mset (fst (random_shuffle R g xs)) = mset xs)"

text \<open>The dictionaries appended to \<^verbatim>\<open>out\<close>; \<open>out_macros\<close> is the nested dictionary
  \<^verbatim>\<open>macros\<close> with its values in the order calories, protein, carbs, fat.\<close>

record Recommendation =
  out_name :: string
  out_items :: "string list"
  out_macros :: "int \<times> int \<times> int \<times> int"
  out_sodium_mg :: int
  out_score :: int
  out_reasons :: "string list"
  out_flags :: "string list"

record Result =
  top_recommendations :: "Recommendation list"
  explanation :: string

text \<open>The first loop of \<^verbatim>\<open>recommend\<close>, over the meals still to visit, with the list
  \<^verbatim>\<open>scored\<close> built so far.\<close>

fun scored_loop :: "Meal list \<Rightarrow> AnswerSet \<Rightarrow> scored_entry list \<Rightarrow> scored_entry list" where
  "scored_loop [] ans scored = scored"
| "scored_loop (m # ms) ans scored =
     (case score_meal m ans of
        (s, r, f) \<Rightarrow> scored_loop ms ans (if s > - 500 then scored @ [(s, m, r, f)] else scored))"

text \<open>The slice \<^verbatim>\<open>xs[:k]\<close> for an integer \<open>k\<close>: a negative \<open>k\<close> counts from the end.\<close>

definition slice_to :: "int \<Rightarrow> 'a list \<Rightarrow> 'a list" where
  "slice_to k xs =
     (if 0 \<le> k then take (nat k) xs else take (nat (int (length xs) + k)) xs)"

definition package :: "scored_entry \<Rightarrow> Recommendation" where
  "package e = (case e of (s, m, r, f) \<Rightarrow>
     \<lparr> out_name = name m, out_items = items m,
       out_macros = (calories m, protein_g m, carbs_g m, fat_g m),
       out_sodium_mg = sodium_mg m, out_score = s, out_reasons = r, out_flags = f \<rparr>)"

definition no_meals_message :: string where
  "no_meals_message =
     ''No meals fit all choices. Try relaxing one avoidance or picking 'No preference'.''"

definition helper_message :: string where
  "helper_message = ''Simple terminal helper for meal ideas.''"

text \<open>
  \<^verbatim>\<open>scored.sort(key=lambda x: x[0], reverse=True)\<close> is a stable sort by descending
  score: entries of equal score keep their order. \<open>sort_key\<close> is a stable insertion
  sort by ascending key, here the negated score.
\<close>

definition recommend ::
  "'g Random \<Rightarrow> AnswerSet \<Rightarrow> int \<Rightarrow> int option \<Rightarrow> 'g World \<Rightarrow> Result \<times> 'g World" where
  "recommend R ans top_k seed w =
     (let scored = scored_loop (catalog w) ans [] in
      if scored = []
      then (\<lparr> top_recommendations = [], explanation = no_meals_message \<rparr>, w)
      else
        (let (scored, w) =
               (case seed of
                  None \<Rightarrow> (scored, w)
                | Some s \<Rightarrow>
                    (case random_shuffle R (random_seed R s) scored of
                       (shuffled, g) \<Rightarrow> (shuffled, w\<lparr> rng := g \<rparr>)));
             scored = sort_key (\<lambda>x. - fst x) scored;
             top = slice_to top_k scored;
             out = map package top
         in (\<lparr> top_recommendations = out, explanation = helper_message \<rparr>, w)))"

subsection \<open>Notions used to state the properties\<close>

text \<open>The score adjustment a block makes: what it adds to a running score of 0.\<close>

definition protein_adjust :: "Meal \<Rightarrow> string \<Rightarrow> int" where
  "protein_adjust meal pref = fst (protein_rule meal pref (0, []))"

definition goal_adjust :: "Meal \<Rightarrow> string \<Rightarrow> int" where
  "goal_adjust meal g = fst (goal_rule meal g (0, []))"

definition timing_adjust :: "Meal \<Rightarrow> string \<Rightarrow> int" where
  "timing_adjust meal t = fst (timing_rule meal t (0, []))"

definition effort_adjust :: "Meal \<Rightarrow> string \<Rightarrow> int" where
  "effort_adjust meal e = fst (effort_rule meal e (0, []))"

definition sodium_adjust :: "Meal \<Rightarrow> string \<Rightarrow> int" where
  "sodium_adjust meal pref = fst (sodium_rule meal pref (0, []))"

definition spice_adjust :: "Meal \<Rightarrow> string \<Rightarrow> int" where
  "spice_adjust meal pref = fst (spice_rule meal pref (0, []))"

text \<open>The score that the blocks other than the sodium block produce: the chain of
  \<open>score_meal\<close> with the sodium block left out.\<close>

definition score_without_sodium :: "Meal \<Rightarrow> AnswerSet \<Rightarrow> int" where
  "score_without_sodium meal ans =
     fst (spice_rule meal (spice_pref ans)
           (effort_rule meal (AnswerSet.effort ans)
             (timing_rule meal (timing ans)
               (goal_rule meal (goal ans)
                 (protein_rule meal (protein_pref ans) (50, []))))))"

text \<open>
  The values the wizard can store in each answer (the dictionaries of \<^verbatim>\<open>main\<close> that
  map a menu choice to a value, and \<^verbatim>\<open>avoids_lookup\<close> in lower case), and the values of
  \<^verbatim>\<open>Meal.spice\<close> named by the dataclass.
\<close>

definition goal_values :: "string list" where
  "goal_values = [''cut'', ''maintenance'', ''bulk'']"

definition timing_values :: "string list" where
  "timing_values = [''pre'', ''post'', ''any'']"

definition protein_pref_values :: "string list" where
  "protein_pref_values = [''beef'', ''poultry'', ''fish/seafood'', ''plant-only'', ''no-preference'']"

definition effort_values :: "string list" where
  "effort_values = [''low'', ''med'', ''high'', ''restaurant'']"

definition sodium_pref_values :: "string list" where
  "sodium_pref_values = [''normal'', ''lower'']"

definition spice_pref_values :: "string list" where
  "spice_pref_values = [''mild'', ''medium'', ''spicy'', ''no-pref'']"

definition spice_values :: "string list" where
  "spice_values = [''mild'', ''medium'', ''spicy'']"

definition all_avoidances :: "string list" where
  "all_avoidances = [''dairy'', ''gluten'', ''nuts'', ''eggs'', ''soy'', ''shellfish'', ''sesame'']"

definition recognized :: "AnswerSet \<Rightarrow> bool" where
  "recognized ans =
     (goal ans \<in> set goal_values \<and> timing ans \<in> set timing_values \<and>
      protein_pref ans \<in> set protein_pref_values \<and>
      set (avoids ans) \<subseteq> set all_avoidances \<and>
      AnswerSet.effort ans \<in> set effort_values \<and>
      sodium_pref ans \<in> set sodium_pref_values \<and>
      spice_pref ans \<in> set spice_pref_values)"

text \<open>
  The branches of each block in which no statement runs, read off the conditions of the
  source: a block is in its no-effect branch when none of its \<^verbatim>\<open>score +=\<close> and
  \<^verbatim>\<open>score -=\<close> statements is reached.
\<close>

definition protein_no_effect :: "Meal \<Rightarrow> string \<Rightarrow> bool" where
  "protein_no_effect meal pref =
     (pref = ''no-preference'' \<or> (pref = ''plant-only'' \<and> protein_type meal = ''plant''))"

definition goal_no_effect :: "Meal \<Rightarrow> string \<Rightarrow> bool" where
  "goal_no_effect meal g =
     (if g = ''cut'' then
        \<not> (calories meal \<le> 600 \<and> protein_g meal \<ge> 35) \<and> \<not> fat_g meal > 22
      else if g = ''bulk'' then
        \<not> (calories meal \<ge> 650 \<and> protein_g meal \<ge> 40) \<and> \<not> calories meal < 600
      else \<not> (500 \<le> calories meal \<and> calories meal \<le> 700))"

definition timing_no_effect :: "Meal \<Rightarrow> string \<Rightarrow> bool" where
  "timing_no_effect meal t =
     (if t = ''pre'' then False
      else if t = ''post'' then
        \<not> protein_g meal \<ge> 35 \<and> \<not> carbs_g meal \<ge> 50 \<and> \<not> fat_g meal \<le> 20
      else True)"

definition effort_no_effect :: "Meal \<Rightarrow> string \<Rightarrow> bool" where
  "effort_no_effect meal e =
     (if e = ''low'' then False
      else if e = ''med'' then Meal.effort meal \<notin> set [''low'', ''med'']
      else if e = ''high'' then False
      else if e = ''restaurant'' then False
      else True)"

definition sodium_no_effect :: "Meal \<Rightarrow> string \<Rightarrow> bool" where
  "sodium_no_effect meal pref =
     (if pref = ''lower'' then \<not> sodium_mg meal \<le> 500 \<and> \<not> sodium_mg meal > 700
      else \<not> sodium_mg meal > 850)"

definition spice_no_effect :: "Meal \<Rightarrow> string \<Rightarrow> bool" where
  "spice_no_effect meal pref = (\<not> (pref \<noteq> ''no-pref'' \<and> spice meal = pref))"

definition no_effect :: "Meal \<Rightarrow> AnswerSet \<Rightarrow> bool" where
  "no_effect meal ans =
     (\<not> conflicts meal ans \<and>
      protein_no_effect meal (protein_pref ans) \<and>
      goal_no_effect meal (goal ans) \<and>
      timing_no_effect meal (timing ans) \<and>
      effort_no_effect meal (AnswerSet.effort ans) \<and>
      sodium_no_effect meal (sodium_pref ans) \<and>
      spice_no_effect meal (spice_pref ans))"

text \<open>Following the words of the specification, not the source: an allergen tag with a
  trailing \<^verbatim>\<open>?\<close> marker stripped, the reading under which \<^verbatim>\<open>dairy?\<close> would count as
  \<^verbatim>\<open>dairy\<close>. The source has no such function; it is used only to state that reading.\<close>

definition spec_base_tag :: "string \<Rightarrow> string" where
  "spec_base_tag tag = (if tag \<noteq> [] \<and> last tag = CHR ''?'' then butlast tag else tag)"

text \<open>The entry that the first loop appends for a meal, and the meals it keeps.\<close>

definition entry :: "AnswerSet \<Rightarrow> Meal \<Rightarrow> scored_entry" where
  "entry ans m = (case score_meal m ans of (s, r, f) \<Rightarrow> (s, m, r, f))"

definition survivors :: "Meal list \<Rightarrow> AnswerSet \<Rightarrow> Meal list" where
  "survivors ms ans = filter (\<lambda>m. fst (score_meal m ans) > - 500) ms"

subsection \<open>Concrete inputs\<close>

text \<open>
  An instance of the library parameter for concrete runs: the generator state is an
  integer, seeding installs the seed, and a shuffle reverses the list and steps the
  state. It stands for the real generator only in what the properties below use: the
  seeded state depends on the seed alone, and a shuffle permutes.
\<close>

definition demo_random :: "int Random" where
  "demo_random = \<lparr> random_seed = (\<lambda>s. s), random_shuffle = (\<lambda>g xs. (rev xs, g + 1)) \<rparr>"

definition initial_world :: "'g \<Rightarrow> 'g World" where
  "initial_world g = \<lparr> catalog = MEALS, rng = g \<rparr>"

definition neutral_answers :: AnswerSet where
  "neutral_answers = \<lparr> goal = ''maintenance'', timing = ''any'',
     protein_pref = ''no-preference'', avoids = [], effort = ''med'',
     sodium_pref = ''normal'', spice_pref = ''no-pref'' \<rparr>"

definition dairy_avoider :: AnswerSet where
  "dairy_avoider = neutral_answers\<lparr> avoids := [''dairy''] \<rparr>"

definition avoid_all_answers :: AnswerSet where
  "avoid_all_answers = neutral_answers\<lparr> avoids := all_avoidances \<rparr>"

definition keto_answers :: AnswerSet where
  "keto_answers = neutral_answers\<lparr> goal := ''keto'' \<rparr>"

definition pork_answers :: AnswerSet where
  "pork_answers = neutral_answers\<lparr> protein_pref := ''pork'' \<rparr>"

definition moderate_sodium_answers :: AnswerSet where
  "moderate_sodium_answers = neutral_answers\<lparr> sodium_pref := ''moderate'' \<rparr>"

definition lower_sodium_answers :: AnswerSet where
  "lower_sodium_answers = neutral_answers\<lparr> sodium_pref := ''lower'' \<rparr>"

text \<open>A meal outside the catalog: the steak plate with 900 mg of sodium.\<close>

definition salty_steak :: Meal where
  "salty_steak = beef_steak_plate\<lparr> sodium_mg := 900 \<rparr>"

subsection \<open>The objects of the program in a store\<close>

text \<open>
  The functions above compute with values. To say what a call does to the objects that
  exist when it starts, the same statements are embedded a second time over an explicit
  store. A store is a list of cells and an address is an index into it; an allocation
  appends a cell, so the address of a new object is the length of the store. The cells
  are the mutable objects of the program: list objects, the instances of the dataclass
  \<^verbatim>\<open>Meal\<close> (whose three list attributes are addresses of list objects), and
  dictionaries. Strings, numbers, booleans and tuples are values; a tuple or a list may
  hold references. The answers are a value, as before.
\<close>

type_synonym addr = nat

datatype val = VStr string | VInt int | VBool bool | VRef addr | VTuple "val list"

record MealObj =
  o_name :: string
  o_items :: addr
  o_calories :: int
  o_protein_g :: int
  o_carbs_g :: int
  o_fat_g :: int
  o_sodium_mg :: int
  o_calcium_mg :: int
  o_protein_type :: string
  o_allergens :: addr
  o_effort :: string
  o_takeout_ok :: bool
  o_spice :: string
  o_notes :: addr

datatype cell = ListCell "val list" | MealCell MealObj | DictCell "(string \<times> val) list"

type_synonym heap = "cell list"

definition alloc :: "cell \<Rightarrow> heap \<Rightarrow> addr \<times> heap" where
  "alloc c h = (length h, h @ [c])"

definition lookup :: "heap \<Rightarrow> addr \<Rightarrow> cell option" where
  "lookup h a = (if a < length h then Some (h ! a) else None)"

definition get_list :: "heap \<Rightarrow> addr \<Rightarrow> val list option" where
  "get_list h a = (case lookup h a of Some (ListCell vs) \<Rightarrow> Some vs | _ \<Rightarrow> None)"

definition get_meal :: "heap \<Rightarrow> addr \<Rightarrow> MealObj option" where
  "get_meal h a = (case lookup h a of Some (MealCell ob) \<Rightarrow> Some ob | _ \<Rightarrow> None)"

definition set_list :: "addr \<Rightarrow> val list \<Rightarrow> heap \<Rightarrow> heap option" where
  "set_list a vs h = (case get_list h a of None \<Rightarrow> None | Some old \<Rightarrow> Some (h[a := ListCell vs]))"

definition list_append :: "addr \<Rightarrow> val \<Rightarrow> heap \<Rightarrow> heap option" where
  "list_append a v h =
     (case get_list h a of None \<Rightarrow> None | Some vs \<Rightarrow> Some (h[a := ListCell (vs @ [v])]))"

fun str_of :: "val \<Rightarrow> string option" where
  "str_of (VStr s) = Some s"
| "str_of v = None"

definition get_strs :: "heap \<Rightarrow> addr \<Rightarrow> string list option" where
  "get_strs h a = (case get_list h a of None \<Rightarrow> None | Some vs \<Rightarrow> those (map str_of vs))"

definition load_meal :: "heap \<Rightarrow> addr \<Rightarrow> Meal option" where
  "load_meal h a =
     (case get_meal h a of None \<Rightarrow> None
      | Some ob \<Rightarrow>
         (case (get_strs h (o_items ob), get_strs h (o_allergens ob), get_strs h (o_notes ob)) of
            (Some its, Some als, Some nts) \<Rightarrow>
              Some \<lparr> name = o_name ob, items = its, calories = o_calories ob,
                     protein_g = o_protein_g ob, carbs_g = o_carbs_g ob, fat_g = o_fat_g ob,
                     sodium_mg = o_sodium_mg ob, calcium_mg = o_calcium_mg ob,
                     protein_type = o_protein_type ob, allergens = als,
                     Meal.effort = o_effort ob, takeout_ok = o_takeout_ok ob,
                     spice = o_spice ob, meal_notes = nts \<rparr>
          | _ \<Rightarrow> None))"


text \<open>
  One block of \<^verbatim>\<open>score_meal\<close> on the store: it reads the meal object at \<open>m\<close> and the
  list object \<^verbatim>\<open>reasons\<close>, and the contents that the block leaves in \<^verbatim>\<open>reasons\<close> by its
  \<^verbatim>\<open>append\<close> statements are stored at the same address. \<open>flag_step\<close> is the last block,
  on the list object \<^verbatim>\<open>flags\<close>. \<open>score_meal_h\<close> is \<^verbatim>\<open>score_meal\<close>: it allocates the two
  local lists, returns two new lists on an avoidance conflict, and runs the blocks
  otherwise; it reads the meal anew in every block, as the source reads the attributes
  where it uses them.
\<close>

definition run_block ::
  "(Meal \<Rightarrow> running \<Rightarrow> running) \<Rightarrow> addr \<Rightarrow> addr \<Rightarrow> int \<times> heap \<Rightarrow> (int \<times> heap) option" where
  "run_block blk m reasons = (\<lambda>(score, h).
     case (load_meal h m, get_strs h reasons) of
       (Some meal, Some rs) \<Rightarrow>
         (case blk meal (score, rs) of
            (score', rs') \<Rightarrow> map_option (Pair score') (set_list reasons (map VStr rs') h))
     | _ \<Rightarrow> None)"

definition flag_step ::
  "addr \<Rightarrow> addr \<Rightarrow> addr \<Rightarrow> int \<times> heap \<Rightarrow> ((int \<times> addr \<times> addr) \<times> heap) option" where
  "flag_step m reasons flags = (\<lambda>(score, h).
     case load_meal h m of None \<Rightarrow> None
     | Some meal \<Rightarrow>
         map_option (Pair (score, reasons, flags))
           (set_list flags (map VStr (advisory_flags meal)) h))"

definition score_meal_h ::
  "addr \<Rightarrow> AnswerSet \<Rightarrow> heap \<Rightarrow> ((int \<times> addr \<times> addr) \<times> heap) option" where
  "score_meal_h m ans h =
     (let (reasons, h) = alloc (ListCell []) h;
          (flags, h) = alloc (ListCell []) h
      in case load_meal h m of None \<Rightarrow> None
         | Some meal \<Rightarrow>
             if conflicts meal ans then
               (let (r, h) = alloc (ListCell [VStr ''conflicts with avoidances'']) h;
                    (f, h) = alloc (ListCell [VStr ''contains allergen'']) h
                in Some ((- 999, r, f), h))
             else
               Option.bind (run_block (\<lambda>meal. protein_rule meal (protein_pref ans)) m reasons (50, h))
                (\<lambda>st. Option.bind (run_block (\<lambda>meal. goal_rule meal (goal ans)) m reasons st)
                (\<lambda>st. Option.bind (run_block (\<lambda>meal. timing_rule meal (timing ans)) m reasons st)
                (\<lambda>st. Option.bind (run_block (\<lambda>meal. effort_rule meal (AnswerSet.effort ans)) m reasons st)
                (\<lambda>st. Option.bind (run_block (\<lambda>meal. sodium_rule meal (sodium_pref ans)) m reasons st)
                (\<lambda>st. Option.bind (run_block (\<lambda>meal. spice_rule meal (spice_pref ans)) m reasons st)
                  (flag_step m reasons flags)))))))"


text \<open>
  A \<^verbatim>\<open>for\<close> loop over a list object: the iterator holds an index and, at every step,
  reads the list as it is then. The loop ends when the index reaches the length of the
  list; a body that kept extending the list would keep it running, and the value is
  \<open>None\<close> then, as it is when a statement fails.
\<close>

partial_function (option) for_each ::
  "addr \<Rightarrow> (val \<Rightarrow> heap \<Rightarrow> heap option) \<Rightarrow> nat \<Rightarrow> heap \<Rightarrow> heap option" where
  "for_each xs body i h =
     (case get_list h xs of None \<Rightarrow> None
      | Some vs \<Rightarrow>
          if i < length vs
          then (case body (vs ! i) h of None \<Rightarrow> None | Some h' \<Rightarrow> for_each xs body (i + 1) h')
          else Some h)"

fun untuple :: "val \<Rightarrow> (int \<times> addr \<times> addr \<times> addr) option" where
  "untuple (VTuple [VInt s, VRef m, VRef r, VRef f]) = Some (s, m, r, f)"
| "untuple v = None"

definition score_step :: "AnswerSet \<Rightarrow> addr \<Rightarrow> val \<Rightarrow> heap \<Rightarrow> heap option" where
  "score_step ans scored v h =
     (case v of
        VRef m \<Rightarrow>
          (case score_meal_h m ans h of None \<Rightarrow> None
           | Some ((s, r, f), h') \<Rightarrow>
               if s > - 500
               then list_append scored (VTuple [VInt s, VRef m, VRef r, VRef f]) h'
               else Some h')
      | _ \<Rightarrow> None)"

definition package_step :: "addr \<Rightarrow> val \<Rightarrow> heap \<Rightarrow> heap option" where
  "package_step out v h =
     (case untuple v of None \<Rightarrow> None
      | Some (s, m, r, f) \<Rightarrow>
          (case get_meal h m of None \<Rightarrow> None
           | Some ob \<Rightarrow>
               (let (macros, h) = alloc (DictCell
                      [(''calories'', VInt (o_calories ob)), (''protein_g'', VInt (o_protein_g ob)),
                       (''carbs_g'', VInt (o_carbs_g ob)), (''fat_g'', VInt (o_fat_g ob))]) h;
                    (d, h) = alloc (DictCell
                      [(''name'', VStr (o_name ob)), (''items'', VRef (o_items ob)),
                       (''macros'', VRef macros), (''sodium_mg'', VInt (o_sodium_mg ob)),
                       (''score'', VInt s), (''reasons'', VRef r), (''flags'', VRef f)]) h
                in list_append out (VRef d) h)))"

definition sort_in_place :: "addr \<Rightarrow> heap \<Rightarrow> heap option" where
  "sort_in_place scored h =
     (case get_list h scored of None \<Rightarrow> None
      | Some vs \<Rightarrow>
          (case those (map untuple vs) of None \<Rightarrow> None
           | Some ts \<Rightarrow> set_list scored (sort_key (\<lambda>v. - fst (the (untuple v))) vs) h))"

text \<open>
  \<^verbatim>\<open>recommend\<close> on the store. \<open>score_step\<close> is the body of the first loop and
  \<open>package_step\<close> the body of the second one, which stores under \<^verbatim>\<open>items\<close> the address
  of the meal's own list. \<^verbatim>\<open>random.shuffle\<close> and \<^verbatim>\<open>sort\<close> (stable, by descending
  score, as before) replace the contents of the list object \<^verbatim>\<open>scored\<close> in place. The library is a parameter again, here on lists of
  values: \<open>seed_fn\<close> and \<open>shuffle_fn\<close>, with the contract \<open>permutes_vals\<close>. The address
  \<open>meals\<close> is that of the global list \<^verbatim>\<open>MEALS\<close>.
\<close>

definition shuffle_in_place ::
  "(int \<Rightarrow> 'g) \<Rightarrow> ('g \<Rightarrow> val list \<Rightarrow> val list \<times> 'g) \<Rightarrow> addr \<Rightarrow> int option \<Rightarrow>
   heap \<times> 'g \<Rightarrow> (heap \<times> 'g) option" where
  "shuffle_in_place seed_fn shuffle_fn scored seed = (\<lambda>(h, g).
     case seed of
       None \<Rightarrow> Some (h, g)
     | Some s \<Rightarrow>
         (case get_list h scored of None \<Rightarrow> None
          | Some vs \<Rightarrow>
              (case shuffle_fn (seed_fn s) vs of
                 (shuffled, g') \<Rightarrow> map_option (\<lambda>h. (h, g')) (set_list scored shuffled h))))"

definition package_top :: "addr \<Rightarrow> int \<Rightarrow> heap \<Rightarrow> (addr \<times> heap) option" where
  "package_top scored top_k h =
     (case get_list h scored of None \<Rightarrow> None
      | Some vs \<Rightarrow>
          (let (top_list, h) = alloc (ListCell (slice_to top_k vs)) h;
               (out, h) = alloc (ListCell []) h
           in map_option (Pair out) (for_each top_list (package_step out) 0 h)))"

definition recommend_h ::
  "(int \<Rightarrow> 'g) \<Rightarrow> ('g \<Rightarrow> val list \<Rightarrow> val list \<times> 'g) \<Rightarrow> addr \<Rightarrow> AnswerSet \<Rightarrow> int \<Rightarrow>
   int option \<Rightarrow> heap \<times> 'g \<Rightarrow> (addr \<times> heap \<times> 'g) option" where
  "recommend_h seed_fn shuffle_fn meals ans top_k seed = (\<lambda>(h, g).
     let (scored, h) = alloc (ListCell []) h in
     Option.bind (for_each meals (score_step ans scored) 0 h) (\<lambda>h.
     Option.bind (get_list h scored) (\<lambda>vs.
       if vs = [] then
         (let (tr, h) = alloc (ListCell []) h;
              (res, h) = alloc (DictCell [(''top_recommendations'', VRef tr),
                                          (''explanation'', VStr no_meals_message)]) h
          in Some (res, h, g))
       else
         Option.bind (shuffle_in_place seed_fn shuffle_fn scored seed (h, g)) (\<lambda>(h, g).
         Option.bind (sort_in_place scored h) (\<lambda>h.
         Option.bind (package_top scored top_k h) (\<lambda>(out, h).
           (let (res, h) = alloc (DictCell [(''top_recommendations'', VRef out),
                                            (''explanation'', VStr helper_message)]) h
            in Some (res, h, g))))))))"


text \<open>A store in which \<open>meals\<close> is the address of a list of references to meal objects
  whose list attributes are lists of strings.\<close>

definition meal_ref :: "heap \<Rightarrow> val \<Rightarrow> bool" where
  "meal_ref h v = (case v of VRef m \<Rightarrow> load_meal h m \<noteq> None | _ \<Rightarrow> False)"

definition catalog_ok :: "heap \<Rightarrow> addr \<Rightarrow> bool" where
  "catalog_ok h meals =
     (case get_list h meals of None \<Rightarrow> False | Some vs \<Rightarrow> list_all (meal_ref h) vs)"

definition permutes_vals :: "('g \<Rightarrow> val list \<Rightarrow> val list \<times> 'g) \<Rightarrow> bool" where
  "permutes_vals shuffle_fn = (\<forall>g vs. mset (fst (shuffle_fn g vs)) = mset vs)"


text \<open>
  The store that the module builds when it is loaded: each call \<^verbatim>\<open>Meal(...)\<close> allocates
  the three lists of its arguments and then the object, and the list \<^verbatim>\<open>MEALS\<close> is
  allocated last.
\<close>

definition store_meal :: "Meal \<Rightarrow> heap \<Rightarrow> addr \<times> heap" where
  "store_meal meal h =
     (let (its, h) = alloc (ListCell (map VStr (items meal))) h;
          (als, h) = alloc (ListCell (map VStr (allergens meal))) h;
          (nts, h) = alloc (ListCell (map VStr (meal_notes meal))) h
      in alloc (MealCell \<lparr> o_name = name meal, o_items = its, o_calories = calories meal,
                  o_protein_g = protein_g meal, o_carbs_g = carbs_g meal, o_fat_g = fat_g meal,
                  o_sodium_mg = sodium_mg meal, o_calcium_mg = calcium_mg meal,
                  o_protein_type = protein_type meal, o_allergens = als,
                  o_effort = Meal.effort meal, o_takeout_ok = takeout_ok meal,
                  o_spice = spice meal, o_notes = nts \<rparr>) h)"

fun store_meals :: "Meal list \<Rightarrow> heap \<Rightarrow> addr list \<times> heap" where
  "store_meals [] h = ([], h)"
| "store_meals (meal # ms) h =
     (case store_meal meal h of
        (a, h') \<Rightarrow> (case store_meals ms h' of (as, h'') \<Rightarrow> (a # as, h'')))"

definition store_catalog :: "Meal list \<Rightarrow> heap \<Rightarrow> addr \<times> heap" where
  "store_catalog ms h = (case store_meals ms h of (as, h') \<Rightarrow> alloc (ListCell (map VRef as)) h')"

definition initial_heap :: heap where
  "initial_heap = snd (store_catalog MEALS [])"

definition MEALS_addr :: addr where
  "MEALS_addr = fst (store_catalog MEALS [])"

definition demo_seed :: "int \<Rightarrow> int" where
  "demo_seed s = s"

definition demo_shuffle :: "int \<Rightarrow> val list \<Rightarrow> val list \<times> int" where
  "demo_shuffle g vs = (rev vs, g + 1)"


text \<open>Invariants used in the proofs about the store: the two local lists of
  \<open>score_meal_h\<close> while the blocks run, the entries of \<^verbatim>\<open>scored\<close>, and the lists \<^verbatim>\<open>top\<close>
  and \<^verbatim>\<open>out\<close> during the second loop.\<close>

definition blocks_inv :: "heap \<Rightarrow> heap \<Rightarrow> string list \<Rightarrow> bool" where
  "blocks_inv h h' rs =
     (prefix h h' \<and> length h' = length h + 2 \<and> get_strs h' (length h) = Some rs \<and>
      get_list h' (length h + 1) = Some [])"


definition ok_entry :: "heap \<Rightarrow> val \<Rightarrow> bool" where
  "ok_entry h0 v = (case untuple v of None \<Rightarrow> False | Some (s, m, r, f) \<Rightarrow> get_meal h0 m \<noteq> None)"

definition scored_inv :: "heap \<Rightarrow> heap \<Rightarrow> bool" where
  "scored_inv h0 h =
     (prefix h0 h \<and>
      (case get_list h (length h0) of None \<Rightarrow> False | Some ts \<Rightarrow> list_all (ok_entry h0) ts))"

definition out_inv :: "heap \<Rightarrow> addr \<Rightarrow> val list \<Rightarrow> addr \<Rightarrow> heap \<Rightarrow> bool" where
  "out_inv h0 tp tops out h =
     (prefix h0 h \<and> get_list h tp = Some tops \<and> get_list h out \<noteq> None)"


section \<open>Shared lemmas\<close>

subsection \<open>The blocks are additive\<close>

lemma protein_rule_fst: "fst (protein_rule m v st) = fst st + protein_adjust m v"
  by (cases st) (simp add: protein_rule_def protein_adjust_def)

lemma goal_rule_fst: "fst (goal_rule m v st) = fst st + goal_adjust m v"
  by (cases st) (simp add: goal_rule_def goal_adjust_def)

lemma timing_rule_fst: "fst (timing_rule m v st) = fst st + timing_adjust m v"
  by (cases st) (simp add: timing_rule_def timing_adjust_def)

lemma effort_rule_fst: "fst (effort_rule m v st) = fst st + effort_adjust m v"
  by (cases st) (simp add: effort_rule_def effort_adjust_def)

lemma sodium_rule_fst: "fst (sodium_rule m v st) = fst st + sodium_adjust m v"
  by (cases st) (simp add: sodium_rule_def sodium_adjust_def)

lemma spice_rule_fst: "fst (spice_rule m v st) = fst st + spice_adjust m v"
  by (cases st) (simp add: spice_rule_def spice_adjust_def)

lemmas rule_fst = protein_rule_fst goal_rule_fst timing_rule_fst effort_rule_fst
  sodium_rule_fst spice_rule_fst

lemma score_meal_conflict:
  "conflicts m a \<Longrightarrow>
   score_meal m a = (- 999, [''conflicts with avoidances''], [''contains allergen''])"
  by (simp add: score_meal_def)

lemma score_meal_sum:
  "\<not> conflicts m a \<Longrightarrow>
   fst (score_meal m a) =
     50 + protein_adjust m (protein_pref a) + goal_adjust m (goal a)
        + timing_adjust m (timing a) + effort_adjust m (AnswerSet.effort a)
        + sodium_adjust m (sodium_pref a) + spice_adjust m (spice_pref a)"
  by (simp add: score_meal_def split_beta rule_fst)

lemma protein_adjust_bounds: "- 30 \<le> protein_adjust m v \<and> protein_adjust m v \<le> 8"
  by (simp add: protein_adjust_def protein_rule_def WEIGHTS_def)

lemma goal_adjust_bounds: "- 4 \<le> goal_adjust m v \<and> goal_adjust m v \<le> 10"
  by (simp add: goal_adjust_def goal_rule_def WEIGHTS_def)

lemma timing_adjust_bounds: "- 6 \<le> timing_adjust m v \<and> timing_adjust m v \<le> 13"
  by (simp add: timing_adjust_def timing_rule_def WEIGHTS_def)

lemma effort_adjust_bounds: "- 4 \<le> effort_adjust m v \<and> effort_adjust m v \<le> 6"
  by (simp add: effort_adjust_def effort_rule_def WEIGHTS_def)

lemma sodium_adjust_bounds: "- 6 \<le> sodium_adjust m v \<and> sodium_adjust m v \<le> 5"
  by (simp add: sodium_adjust_def sodium_rule_def WEIGHTS_def)

lemma spice_adjust_bounds: "0 \<le> spice_adjust m v \<and> spice_adjust m v \<le> 2"
  by (simp add: spice_adjust_def spice_rule_def WEIGHTS_def)

lemma score_meal_bounds:
  assumes "\<not> conflicts m a"
  shows "0 \<le> fst (score_meal m a) \<and> fst (score_meal m a) \<le> 94"
  using protein_adjust_bounds[of m "protein_pref a"] goal_adjust_bounds[of m "goal a"]
    timing_adjust_bounds[of m "timing a"] effort_adjust_bounds[of m "AnswerSet.effort a"]
    sodium_adjust_bounds[of m "sodium_pref a"] spice_adjust_bounds[of m "spice_pref a"]
  by (simp add: score_meal_sum[OF assms])

lemma kept_iff: "(fst (score_meal m a) > - 500) = (\<not> conflicts m a)"
proof (cases "conflicts m a")
  case True
  then show ?thesis by (simp add: score_meal_conflict)
next
  case False
  then show ?thesis using score_meal_bounds[OF False] by simp
qed

lemma conflicts_iff: "conflicts m a = (set (allergens m) \<inter> set (avoids a) \<noteq> {})"
  by (auto simp: conflicts_def list_ex_iff)

subsection \<open>Facts about the recommender\<close>

lemma scored_loop_eq: "scored_loop ms a acc = acc @ map (entry a) (survivors ms a)"
  by (induction ms arbitrary: acc) (auto simp: entry_def survivors_def split: prod.splits)

lemma scored_loop_survivors: "scored_loop ms a [] = map (entry a) (survivors ms a)"
  by (simp add: scored_loop_eq)

lemma survivors_conflicts: "survivors ms a = filter (\<lambda>m. \<not> conflicts m a) ms"
  by (simp add: survivors_def kept_iff)

lemma length_slice_to:
  "length (slice_to k xs) = (if 0 \<le> k then min (nat k) (length xs) else length xs - nat (- k))"
  by (auto simp: slice_to_def)

lemma set_slice_to: "set (slice_to k xs) \<subseteq> set xs"
  by (auto simp: slice_to_def dest: in_set_takeD)

lemma slice_to_all: "int (length xs) \<le> k \<Longrightarrow> slice_to k xs = xs"
  by (simp add: slice_to_def)

lemma shuffle_length: "shuffle_permutes R \<Longrightarrow> length (fst (random_shuffle R g xs)) = length xs"
  unfolding shuffle_permutes_def by (metis mset_eq_length)

lemma shuffle_set: "shuffle_permutes R \<Longrightarrow> set (fst (random_shuffle R g xs)) = set xs"
  unfolding shuffle_permutes_def by (metis mset_eq_setD)

lemma demo_random_permutes: "shuffle_permutes demo_random"
  by (simp add: shuffle_permutes_def demo_random_def)

text \<open>The list that is sliced: the surviving entries, shuffled when a seed is given, then
  sorted.\<close>

lemma recommend_top:
  "survivors (catalog w) a \<noteq> [] \<Longrightarrow>
   top_recommendations (fst (recommend R a k seed w)) =
     map package (slice_to k (sort_key (\<lambda>x. - fst x)
       (case seed of None \<Rightarrow> map (entry a) (survivors (catalog w) a)
        | Some s \<Rightarrow> fst (random_shuffle R (random_seed R s)
                          (map (entry a) (survivors (catalog w) a))))))"
  by (cases seed) (simp_all add: recommend_def Let_def split_beta scored_loop_survivors)

lemma recommend_empty:
  "survivors (catalog w) a = [] \<Longrightarrow>
   recommend R a k seed w = (\<lparr> top_recommendations = [], explanation = no_meals_message \<rparr>, w)"
  by (simp add: recommend_def Let_def scored_loop_survivors)

lemma recommend_length:
  assumes "shuffle_permutes R"
  shows "length (top_recommendations (fst (recommend R a k seed w))) =
         length (slice_to k (survivors (catalog w) a))"
proof (cases "survivors (catalog w) a = []")
  case True
  then show ?thesis by (simp add: recommend_empty length_slice_to)
next
  case False
  then show ?thesis using shuffle_length[OF assms]
    by (cases seed) (simp_all add: recommend_top length_slice_to)
qed

lemma recommend_set:
  assumes "shuffle_permutes R"
  shows "set (top_recommendations (fst (recommend R a k seed w))) \<subseteq>
         package ` entry a ` set (survivors (catalog w) a)"
proof (cases "survivors (catalog w) a = []")
  case True
  then show ?thesis by (simp add: recommend_empty)
next
  case False
  define xs where "xs =
    (case seed of None \<Rightarrow> map (entry a) (survivors (catalog w) a)
     | Some s \<Rightarrow> fst (random_shuffle R (random_seed R s)
                       (map (entry a) (survivors (catalog w) a))))"
  have xs: "set xs = entry a ` set (survivors (catalog w) a)"
    unfolding xs_def using shuffle_set[OF assms] by (cases seed) simp_all
  have "set (top_recommendations (fst (recommend R a k seed w))) =
        package ` set (slice_to k (sort_key (\<lambda>x. - fst x) xs))"
    using recommend_top[OF False] by (simp add: xs_def)
  also have "\<dots> \<subseteq> package ` set (sort_key (\<lambda>x. - fst x) xs)"
    by (intro image_mono set_slice_to)
  also have "\<dots> = package ` entry a ` set (survivors (catalog w) a)"
    using xs by simp
  finally show ?thesis .
qed

lemma recommend_set_all:
  assumes "shuffle_permutes R" and "int (length (survivors (catalog w) a)) \<le> k"
  shows "set (top_recommendations (fst (recommend R a k seed w))) =
         package ` entry a ` set (survivors (catalog w) a)"
proof (cases "survivors (catalog w) a = []")
  case True
  then show ?thesis by (simp add: recommend_empty)
next
  case False
  show ?thesis using False assms(2) shuffle_set[OF assms(1)] shuffle_length[OF assms(1)]
    by (cases seed) (simp_all add: recommend_top slice_to_all)
qed

lemma out_name_package: "out_name (package (entry a m)) = name m"
  by (simp add: package_def entry_def split: prod.splits)

lemma recommend_names:
  assumes "shuffle_permutes R"
  shows "out_name ` set (top_recommendations (fst (recommend R a k seed w))) \<subseteq>
         name ` set (survivors (catalog w) a)"
  using recommend_set[OF assms, of a k seed w] by (auto simp: out_name_package)

lemma recommend_explanation:
  "explanation (fst (recommend R a k seed w)) =
     (if survivors (catalog w) a = [] then no_meals_message else helper_message)"
  by (cases seed) (simp_all add: recommend_def Let_def split_beta scored_loop_survivors)

lemma recommend_catalog: "catalog (snd (recommend R a k seed w)) = catalog w"
  by (cases seed) (simp_all add: recommend_def Let_def split_beta)

lemma recommend_world_None: "snd (recommend R a k None w) = w"
  by (simp add: recommend_def Let_def)

lemma recommend_world_Some:
  "snd (recommend R a k (Some s) w) =
     (if survivors (catalog w) a = [] then w
      else w\<lparr> rng := snd (random_shuffle R (random_seed R s) (scored_loop (catalog w) a [])) \<rparr>)"
  by (simp add: recommend_def Let_def split_beta scored_loop_survivors)

lemma recommend_result_eq:
  "catalog w = catalog w' \<Longrightarrow>
   fst (recommend R a k (Some s) w) = fst (recommend R a k (Some s) w')"
  by (simp add: recommend_def Let_def split_beta)

subsection \<open>Facts about the catalog\<close>

lemmas meal_defs = mk_meal_def grilled_salmon_bowl_def chicken_thigh_plate_def
  tofu_stir_fry_def lentil_curry_rice_def turkey_chili_def beef_steak_plate_def
  egg_white_omelet_def greek_yogurt_bowl_def sardine_avocado_toast_def
  tempeh_buddha_bowl_def shrimp_rice_bowl_def chickpea_pasta_def

lemmas rule_defs = protein_rule_def goal_rule_def timing_rule_def effort_rule_def
  sodium_rule_def spice_rule_def advisory_flags_def WEIGHTS_def

lemma catalog_allergens:
  "allergens grilled_salmon_bowl = [''dairy'']"
  "allergens chicken_thigh_plate = [''sesame'']"
  "allergens tofu_stir_fry = [''soy'', ''gluten?'']"
  "allergens lentil_curry_rice = []"
  "allergens turkey_chili = []"
  "allergens beef_steak_plate = [''dairy?'']"
  "allergens egg_white_omelet = [''eggs'', ''gluten?'']"
  "allergens greek_yogurt_bowl = [''dairy'', ''nuts'']"
  "allergens sardine_avocado_toast = [''gluten?'', ''fish'']"
  "allergens tempeh_buddha_bowl = [''soy'', ''sesame'']"
  "allergens shrimp_rice_bowl = [''shellfish'']"
  "allergens chickpea_pasta = []"
  by (simp_all add: meal_defs)

lemma catalog_names:
  "name grilled_salmon_bowl = ''Grilled Salmon Bowl''"
  "name chicken_thigh_plate = ''Chicken Thigh + Sweet Potato Plate''"
  "name tofu_stir_fry = ''Tofu Stir-Fry''"
  "name lentil_curry_rice = ''Lentil Curry + Rice''"
  "name turkey_chili = ''Turkey Chili (Lean)''"
  "name beef_steak_plate = ''Beef Steak Plate''"
  "name egg_white_omelet = ''Egg White Veggie Omelet + Oats''"
  "name greek_yogurt_bowl = ''Greek Yogurt Power Bowl''"
  "name sardine_avocado_toast = ''Sardine Avocado Toast''"
  "name tempeh_buddha_bowl = ''Tempeh Buddha Bowl''"
  "name shrimp_rice_bowl = ''Shrimp Rice Bowl''"
  "name chickpea_pasta = ''Chickpea Pasta Primavera''"
  by (simp_all add: meal_defs)

lemma catalog_names_distinct: "distinct (map name MEALS)"
  by (simp add: MEALS_def catalog_names)

lemma no_avoids_no_conflict: "avoids a = [] \<Longrightarrow> \<not> conflicts m a"
  by (simp add: conflicts_def)

lemma initial_world_simps: "catalog (initial_world g) = MEALS" "rng (initial_world g) = g"
  by (simp_all add: initial_world_def)

lemma MEALS_length: "length MEALS = 12"
  by (simp add: MEALS_def)

lemma survivors_no_avoids: "avoids a = [] \<Longrightarrow> survivors ms a = ms"
  by (simp add: survivors_conflicts no_avoids_no_conflict)

lemma neutral_avoids: "avoids neutral_answers = []"
  by (simp add: neutral_answers_def)

lemma neutral_survivors: "survivors MEALS neutral_answers = MEALS"
  by (simp add: survivors_no_avoids neutral_avoids)

section \<open>The scoring engine\<close>

subsection \<open>Score dichotomy\<close>

text \<open>
  \<^bold>\<open>C10.\<close> \<open>score_meal\<close> returns either the sentinel \<open>-999\<close>, exactly when an avoidance
  conflict disqualifies the meal, or a score strictly greater than \<open>-500\<close>; so the
  test \<^verbatim>\<open>s > -500\<close> of \<^verbatim>\<open>recommend\<close> keeps exactly the meals that are not disqualified,
  and the list \<^verbatim>\<open>scored\<close> holds one entry for each of them, in catalog order. The
  lowest score a meal that is not disqualified can get is 0 (lemma \<open>score_meal_bounds\<close>).
  The statement holds for every meal and every answer set, so in particular for the
  catalog meals and the answer sets whose fields hold recognized values.
\<close>

theorem score_dichotomy:
  "(conflicts m a \<and>
      score_meal m a = (- 999, [''conflicts with avoidances''], [''contains allergen''])
    \<or> \<not> conflicts m a \<and> - 500 < fst (score_meal m a)) \<and>
   (- 500 < fst (score_meal m a)) = (\<not> conflicts m a) \<and>
   scored_loop ms a [] = map (entry a) (filter (\<lambda>m. \<not> conflicts m a) ms)"
proof -
  have "conflicts m a \<Longrightarrow>
        score_meal m a = (- 999, [''conflicts with avoidances''], [''contains allergen''])"
    by (rule score_meal_conflict)
  moreover have "(- 500 < fst (score_meal m a)) = (\<not> conflicts m a)"
    by (rule kept_iff)
  moreover have "scored_loop ms a [] = map (entry a) (filter (\<lambda>m. \<not> conflicts m a) ms)"
    by (simp add: scored_loop_survivors survivors_conflicts)
  ultimately show ?thesis by blast
qed

lemma dairy_avoider_recognized: "recognized dairy_avoider"
  by (simp add: recognized_def dairy_avoider_def neutral_answers_def goal_values_def
      timing_values_def protein_pref_values_def effort_values_def sodium_pref_values_def
      spice_pref_values_def all_avoidances_def)

lemma salmon_dairy_conflict: "conflicts grilled_salmon_bowl dairy_avoider"
  by (simp add: conflicts_iff catalog_allergens dairy_avoider_def)

lemma beef_dairy_no_conflict: "\<not> conflicts beef_steak_plate dairy_avoider"
  by (simp add: conflicts_iff catalog_allergens dairy_avoider_def)

lemma beef_dairy_score:
  "score_meal beef_steak_plate dairy_avoider = (50, [], [''omit butter to be dairy-free''])"
  by (simp add: score_meal_def beef_dairy_no_conflict)
     (simp add: dairy_avoider_def neutral_answers_def beef_steak_plate_def mk_meal_def rule_defs)

theorem score_dichotomy_witness:
  "grilled_salmon_bowl \<in> set MEALS \<and> beef_steak_plate \<in> set MEALS \<and>
   recognized dairy_avoider \<and>
   conflicts grilled_salmon_bowl dairy_avoider \<and>
   score_meal grilled_salmon_bowl dairy_avoider =
     (- 999, [''conflicts with avoidances''], [''contains allergen'']) \<and>
   \<not> conflicts beef_steak_plate dairy_avoider \<and>
   - 500 < fst (score_meal beef_steak_plate dairy_avoider) \<and>
   scored_loop [grilled_salmon_bowl, beef_steak_plate] dairy_avoider [] =
     [(50, beef_steak_plate, [], [''omit butter to be dairy-free''])]"
  using score_dichotomy[of grilled_salmon_bowl dairy_avoider
          "[grilled_salmon_bowl, beef_steak_plate]"]
        score_dichotomy[of beef_steak_plate dairy_avoider "[]"]
        salmon_dairy_conflict beef_dairy_no_conflict dairy_avoider_recognized
  by (simp add: MEALS_def entry_def beef_dairy_score)

subsection \<open>Additivity baseline\<close>

text \<open>A block in its no-effect branch returns the running score and the reasons as they
  are, and a block that returns them as they are is in its no-effect branch.\<close>

lemma protein_no_effect_id: "protein_no_effect m v \<Longrightarrow> protein_rule m v st = st"
  unfolding protein_no_effect_def
  by (cases st) (elim disjE conjE; simp add: protein_rule_def)

lemma goal_no_effect_id: "goal_no_effect m v \<Longrightarrow> goal_rule m v st = st"
  by (cases st) (auto simp: goal_no_effect_def goal_rule_def)

lemma timing_no_effect_id: "timing_no_effect m v \<Longrightarrow> timing_rule m v st = st"
  by (cases st) (auto simp: timing_no_effect_def timing_rule_def)

lemma effort_no_effect_id: "effort_no_effect m v \<Longrightarrow> effort_rule m v st = st"
  by (cases st) (simp add: effort_no_effect_def effort_rule_def split: if_splits)

lemma sodium_no_effect_id: "sodium_no_effect m v \<Longrightarrow> sodium_rule m v st = st"
  by (cases st) (auto simp: sodium_no_effect_def sodium_rule_def)

lemma spice_no_effect_id: "spice_no_effect m v \<Longrightarrow> spice_rule m v st = st"
  by (cases st) (auto simp: spice_no_effect_def spice_rule_def)

lemma protein_no_effect_exact: "protein_rule m v (0, []) = (0, []) \<Longrightarrow> protein_no_effect m v"
  by (simp add: protein_no_effect_def protein_rule_def WEIGHTS_def split: if_splits)

lemma goal_no_effect_exact: "goal_rule m v (0, []) = (0, []) \<Longrightarrow> goal_no_effect m v"
  by (simp add: goal_no_effect_def goal_rule_def WEIGHTS_def split: if_splits)

lemma timing_no_effect_exact: "timing_rule m v (0, []) = (0, []) \<Longrightarrow> timing_no_effect m v"
  by (simp add: timing_no_effect_def timing_rule_def WEIGHTS_def split: if_splits)

lemma effort_no_effect_exact: "effort_rule m v (0, []) = (0, []) \<Longrightarrow> effort_no_effect m v"
  by (simp add: effort_no_effect_def effort_rule_def WEIGHTS_def split: if_splits)

lemma sodium_no_effect_exact: "sodium_rule m v (0, []) = (0, []) \<Longrightarrow> sodium_no_effect m v"
  by (simp add: sodium_no_effect_def sodium_rule_def WEIGHTS_def split: if_splits)

lemma spice_no_effect_exact: "spice_rule m v (0, []) = (0, []) \<Longrightarrow> spice_no_effect m v"
  by (simp add: spice_no_effect_def spice_rule_def WEIGHTS_def split: if_splits)

text \<open>
  \<^bold>\<open>C7.\<close> Additivity baseline: when there is no avoidance conflict and each of the six
  scoring blocks is in its no-effect branch, \<open>score_meal\<close> returns the score 50, with
  no reason. The advisory flags of the last block do not touch the score, so nothing is
  asked of them.
\<close>

theorem additivity_baseline:
  assumes "no_effect m a"
  shows "score_meal m a = (50, [], advisory_flags m)"
  using assms
  by (simp add: no_effect_def score_meal_def protein_no_effect_id goal_no_effect_id
      timing_no_effect_id effort_no_effect_id sodium_no_effect_id spice_no_effect_id)

theorem additivity_baseline_witness:
  "no_effect beef_steak_plate neutral_answers \<and>
   score_meal beef_steak_plate neutral_answers = (50, [], [''omit butter to be dairy-free''])"
proof -
  have c: "\<not> conflicts beef_steak_plate neutral_answers"
    by (simp add: conflicts_def neutral_answers_def)
  have h: "no_effect beef_steak_plate neutral_answers"
    unfolding no_effect_def using c
    by (simp add: protein_no_effect_def goal_no_effect_def
        timing_no_effect_def effort_no_effect_def sodium_no_effect_def spice_no_effect_def
        neutral_answers_def beef_steak_plate_def mk_meal_def)
  have "advisory_flags beef_steak_plate = [''omit butter to be dairy-free'']"
    by (simp add: advisory_flags_def catalog_allergens)
  with additivity_baseline[OF h] h show ?thesis by simp
qed

subsection \<open>The sodium rule\<close>

lemma sodium_adjust_lower:
  "sodium_adjust m ''lower'' =
     (if sodium_mg m \<le> 500 then sodium_low_bonus WEIGHTS
      else if sodium_mg m > 700 then - sodium_high_penalty WEIGHTS else 0)"
  by (simp add: sodium_adjust_def sodium_rule_def)

lemma score_without_sodium_sum:
  "score_without_sodium m a =
     50 + protein_adjust m (protein_pref a) + goal_adjust m (goal a)
        + timing_adjust m (timing a) + effort_adjust m (AnswerSet.effort a)
        + spice_adjust m (spice_pref a)"
  by (simp add: score_without_sodium_def rule_fst)

text \<open>
  \<^bold>\<open>C8.\<close> Sodium rule gap: for a meal without avoidance conflict and the preference
  \<^verbatim>\<open>lower\<close>, the score is the score of the other blocks plus the weight
  \<^verbatim>\<open>sodium_low_bonus\<close> when the meal has at most 500 mg of sodium, minus the weight
  \<^verbatim>\<open>sodium_high_penalty\<close> when it has more than 700 mg, and with no adjustment in
  between.
\<close>

theorem sodium_rule_gap:
  assumes "\<not> conflicts m a" and "sodium_pref a = ''lower''"
  shows "fst (score_meal m a) =
           score_without_sodium m a +
           (if sodium_mg m \<le> 500 then sodium_low_bonus WEIGHTS
            else if sodium_mg m > 700 then - sodium_high_penalty WEIGHTS
            else 0)"
  using assms by (simp add: score_meal_sum score_without_sodium_sum sodium_adjust_lower)

theorem sodium_rule_gap_witness:
  "\<not> conflicts greek_yogurt_bowl lower_sodium_answers \<and>
   \<not> conflicts lentil_curry_rice lower_sodium_answers \<and>
   \<not> conflicts salty_steak lower_sodium_answers \<and>
   sodium_pref lower_sodium_answers = ''lower'' \<and>
   fst (score_meal greek_yogurt_bowl lower_sodium_answers) =
     score_without_sodium greek_yogurt_bowl lower_sodium_answers + 5 \<and>
   fst (score_meal lentil_curry_rice lower_sodium_answers) =
     score_without_sodium lentil_curry_rice lower_sodium_answers \<and>
   fst (score_meal salty_steak lower_sodium_answers) =
     score_without_sodium salty_steak lower_sodium_answers - 6"
proof -
  have a: "avoids lower_sodium_answers = []"
    by (simp add: lower_sodium_answers_def neutral_answers_def)
  have p: "sodium_pref lower_sodium_answers = ''lower''"
    by (simp add: lower_sodium_answers_def)
  have na: "sodium_mg greek_yogurt_bowl = 180" "sodium_mg lentil_curry_rice = 540"
    "sodium_mg salty_steak = 900"
    by (simp_all add: meal_defs salty_steak_def)
  show ?thesis
    using sodium_rule_gap[OF no_avoids_no_conflict[OF a] p, of greek_yogurt_bowl]
      sodium_rule_gap[OF no_avoids_no_conflict[OF a] p, of lentil_curry_rice]
      sodium_rule_gap[OF no_avoids_no_conflict[OF a] p, of salty_steak]
      no_avoids_no_conflict[OF a] p
    by (simp add: na WEIGHTS_def)
qed

subsection \<open>Values outside the enums\<close>

text \<open>
  The source compares strings and nothing else, so no value of an answer makes
  \<^verbatim>\<open>score_meal\<close> raise: \<open>score_meal\<close> is a total function that returns a triple. What a
  value outside the enum does depends on the shape of the block. The timing and effort
  blocks are chains of \<^verbatim>\<open>if\<close> and \<^verbatim>\<open>elif\<close> without a final \<^verbatim>\<open>else\<close>, and the spice block
  is one equality test; the goal, sodium and protein blocks end in an \<^verbatim>\<open>else\<close> that every
  other value reaches.
\<close>

lemma timing_unrecognized: "t \<notin> set timing_values \<Longrightarrow> timing_rule m t st = st"
  by (cases st) (simp add: timing_values_def timing_rule_def)

lemma effort_unrecognized: "e \<notin> set effort_values \<Longrightarrow> effort_rule m e st = st"
  by (cases st) (simp add: effort_values_def effort_rule_def)

lemma spice_unrecognized:
  "sp \<notin> set spice_pref_values \<Longrightarrow> spice m \<in> set spice_values \<Longrightarrow> spice_rule m sp st = st"
  by (cases st) (auto simp add: spice_pref_values_def spice_values_def spice_rule_def)

lemma goal_unrecognized:
  "g \<notin> set goal_values \<Longrightarrow> goal_rule m g st = goal_rule m ''maintenance'' st"
  by (cases st) (simp add: goal_values_def goal_rule_def)

lemma sodium_unrecognized:
  "na \<notin> set sodium_pref_values \<Longrightarrow> sodium_rule m na st = sodium_rule m ''normal'' st"
  by (cases st) (simp add: sodium_pref_values_def sodium_rule_def)

lemma protein_unrecognized:
  "p \<notin> set protein_pref_values \<Longrightarrow>
   protein_rule m p st =
     (if protein_type m = p
      then (fst st + match_protein_pref WEIGHTS, snd st @ [''matches protein preference''])
      else (fst st - mismatch_protein_pref WEIGHTS, snd st))"
  by (cases st) (simp add: protein_pref_values_def protein_rule_def)

lemma timing_any: "timing_rule m ''any'' st = st"
  by (cases st) (simp add: timing_rule_def)

lemma spice_no_pref: "spice_rule m ''no-pref'' st = st"
  by (cases st) (simp add: spice_rule_def)

text \<open>
  \<^bold>\<open>C3\<close>, as the code has it. A timing value outside the enum is scored as \<^verbatim>\<open>any\<close> and an
  effort value outside the enum changes nothing; a spice preference outside the enum is
  scored as \<^verbatim>\<open>no-pref\<close> for every meal whose spice is one of mild, medium and spicy.
  A goal outside the enum is scored as \<^verbatim>\<open>maintenance\<close>, a sodium preference outside the
  enum as \<^verbatim>\<open>normal\<close>, and a protein preference outside the enum goes through the last
  branch of the protein block: the weight \<^verbatim>\<open>match_protein_pref\<close> is added when it equals
  the meal's protein type, and the weight \<^verbatim>\<open>mismatch_protein_pref\<close> is subtracted
  otherwise.
\<close>

theorem unrecognized_values:
  "(t \<notin> set timing_values \<longrightarrow>
      timing_rule m t st = st \<and>
      score_meal m (a\<lparr> timing := t \<rparr>) = score_meal m (a\<lparr> timing := ''any'' \<rparr>)) \<and>
   (e \<notin> set effort_values \<longrightarrow> effort_rule m e st = st) \<and>
   (sp \<notin> set spice_pref_values \<and> spice m \<in> set spice_values \<longrightarrow>
      spice_rule m sp st = st \<and>
      score_meal m (a\<lparr> spice_pref := sp \<rparr>) = score_meal m (a\<lparr> spice_pref := ''no-pref'' \<rparr>)) \<and>
   (g \<notin> set goal_values \<longrightarrow>
      goal_rule m g st = goal_rule m ''maintenance'' st \<and>
      score_meal m (a\<lparr> goal := g \<rparr>) = score_meal m (a\<lparr> goal := ''maintenance'' \<rparr>)) \<and>
   (na \<notin> set sodium_pref_values \<longrightarrow>
      sodium_rule m na st = sodium_rule m ''normal'' st \<and>
      score_meal m (a\<lparr> sodium_pref := na \<rparr>) = score_meal m (a\<lparr> sodium_pref := ''normal'' \<rparr>)) \<and>
   (p \<notin> set protein_pref_values \<longrightarrow>
      protein_rule m p st =
        (if protein_type m = p
         then (fst st + match_protein_pref WEIGHTS, snd st @ [''matches protein preference''])
         else (fst st - mismatch_protein_pref WEIGHTS, snd st)))"
proof -
  have c: "conflicts m (a\<lparr> timing := t \<rparr>) = conflicts m a"
    "conflicts m (a\<lparr> spice_pref := sp \<rparr>) = conflicts m a"
    "conflicts m (a\<lparr> goal := g \<rparr>) = conflicts m a"
    "conflicts m (a\<lparr> sodium_pref := na \<rparr>) = conflicts m a" for t sp g na
    by (simp_all add: conflicts_def)
  have "score_meal m (a\<lparr> timing := t \<rparr>) = score_meal m (a\<lparr> timing := ''any'' \<rparr>)"
    if "t \<notin> set timing_values"
    by (simp add: score_meal_def c timing_unrecognized[OF that] timing_any)
  moreover have "score_meal m (a\<lparr> spice_pref := sp \<rparr>) = score_meal m (a\<lparr> spice_pref := ''no-pref'' \<rparr>)"
    if "sp \<notin> set spice_pref_values" "spice m \<in> set spice_values"
    by (simp add: score_meal_def c spice_unrecognized[OF that] spice_no_pref)
  moreover have "score_meal m (a\<lparr> goal := g \<rparr>) = score_meal m (a\<lparr> goal := ''maintenance'' \<rparr>)"
    if "g \<notin> set goal_values"
    by (simp add: score_meal_def c goal_unrecognized[OF that])
  moreover have "score_meal m (a\<lparr> sodium_pref := na \<rparr>) = score_meal m (a\<lparr> sodium_pref := ''normal'' \<rparr>)"
    if "na \<notin> set sodium_pref_values"
    by (simp add: score_meal_def c sodium_unrecognized[OF that])
  ultimately show ?thesis
    using timing_unrecognized[of t m st] effort_unrecognized[of e m st]
      spice_unrecognized[of sp m st] goal_unrecognized[of g m st]
      sodium_unrecognized[of na m st] protein_unrecognized[of p m st]
    by blast
qed

lemma chicken_keto: "score_meal chicken_thigh_plate keto_answers = (58, [''maintenance-friendly calories''], [])"
  by (simp add: score_meal_def conflicts_def keto_answers_def neutral_answers_def)
     (simp add: chicken_thigh_plate_def mk_meal_def rule_defs)

lemma chicken_cut: "score_meal chicken_thigh_plate (neutral_answers\<lparr> goal := ''cut'' \<rparr>) = (53, [], [])"
  by (simp add: score_meal_def conflicts_def neutral_answers_def)
     (simp add: chicken_thigh_plate_def mk_meal_def rule_defs)

text \<open>
  The statement of C3 that no adjustment is made fails for three of the six fields. With
  the goal \<^verbatim>\<open>keto\<close> the chicken plate (620 kcal) gets the maintenance bonus of 5 and its
  reason, while the recognized goal \<^verbatim>\<open>cut\<close>, which is in its no-effect branch for this
  meal, leaves the score at 53; the protein preference \<^verbatim>\<open>pork\<close> costs the same meal 4
  points; and the sodium preference \<^verbatim>\<open>moderate\<close> costs a meal with 900 mg of sodium 2
  points.
\<close>

theorem unrecognized_values_counterexample:
  "goal keto_answers \<notin> set goal_values \<and>
   goal_adjust chicken_thigh_plate (goal keto_answers) = 5 \<and>
   score_meal chicken_thigh_plate keto_answers = (58, [''maintenance-friendly calories''], []) \<and>
   goal_no_effect chicken_thigh_plate ''cut'' \<and>
   score_meal chicken_thigh_plate (keto_answers\<lparr> goal := ''cut'' \<rparr>) = (53, [], []) \<and>
   protein_pref pork_answers \<notin> set protein_pref_values \<and>
   protein_adjust chicken_thigh_plate (protein_pref pork_answers) = - 4 \<and>
   sodium_pref moderate_sodium_answers \<notin> set sodium_pref_values \<and>
   sodium_adjust salty_steak (sodium_pref moderate_sodium_answers) = - 2"
proof -
  have "goal keto_answers \<notin> set goal_values"
    by (simp add: keto_answers_def goal_values_def)
  moreover have "goal_adjust chicken_thigh_plate (goal keto_answers) = 5"
    by (simp add: keto_answers_def goal_adjust_def goal_rule_def chicken_thigh_plate_def mk_meal_def WEIGHTS_def)
  moreover have "goal_no_effect chicken_thigh_plate ''cut''"
    by (simp add: goal_no_effect_def chicken_thigh_plate_def mk_meal_def)
  moreover have "score_meal chicken_thigh_plate (keto_answers\<lparr> goal := ''cut'' \<rparr>) = (53, [], [])"
    using chicken_cut by (simp add: keto_answers_def)
  moreover have "protein_pref pork_answers \<notin> set protein_pref_values"
    by (simp add: pork_answers_def protein_pref_values_def)
  moreover have "protein_adjust chicken_thigh_plate (protein_pref pork_answers) = - 4"
    by (simp add: pork_answers_def protein_adjust_def protein_rule_def chicken_thigh_plate_def mk_meal_def WEIGHTS_def)
  moreover have "sodium_pref moderate_sodium_answers \<notin> set sodium_pref_values"
    by (simp add: moderate_sodium_answers_def sodium_pref_values_def)
  moreover have "sodium_adjust salty_steak (sodium_pref moderate_sodium_answers) = - 2"
    by (simp add: moderate_sodium_answers_def sodium_adjust_def sodium_rule_def salty_steak_def WEIGHTS_def)
  ultimately show ?thesis using chicken_keto by simp
qed

theorem unrecognized_values_witness:
  "''brunch'' \<notin> set timing_values \<and>
   timing_rule chicken_thigh_plate ''brunch'' (50, []) = (50, []) \<and>
   score_meal chicken_thigh_plate (neutral_answers\<lparr> timing := ''brunch'' \<rparr>) =
     score_meal chicken_thigh_plate (neutral_answers\<lparr> timing := ''any'' \<rparr>) \<and>
   ''none'' \<notin> set effort_values \<and>
   effort_rule chicken_thigh_plate ''none'' (50, []) = (50, []) \<and>
   ''hot'' \<notin> set spice_pref_values \<and> spice chicken_thigh_plate \<in> set spice_values \<and>
   spice_rule chicken_thigh_plate ''hot'' (50, []) = (50, []) \<and>
   ''keto'' \<notin> set goal_values \<and>
   goal_rule chicken_thigh_plate ''keto'' (50, []) = (55, [''maintenance-friendly calories'']) \<and>
   ''moderate'' \<notin> set sodium_pref_values \<and>
   sodium_rule salty_steak ''moderate'' (50, []) = (48, []) \<and>
   ''pork'' \<notin> set protein_pref_values \<and>
   protein_rule chicken_thigh_plate ''pork'' (50, []) = (46, [])"
proof -
  have v: "''brunch'' \<notin> set timing_values" "''none'' \<notin> set effort_values"
    "''hot'' \<notin> set spice_pref_values" "''keto'' \<notin> set goal_values"
    "''moderate'' \<notin> set sodium_pref_values" "''pork'' \<notin> set protein_pref_values"
    by (simp_all add: timing_values_def effort_values_def spice_pref_values_def
        goal_values_def sodium_pref_values_def protein_pref_values_def)
  have s: "spice chicken_thigh_plate \<in> set spice_values"
    by (simp add: chicken_thigh_plate_def mk_meal_def spice_values_def)
  have g: "goal_rule chicken_thigh_plate ''maintenance'' (50, []) = (55, [''maintenance-friendly calories''])"
    by (simp add: goal_rule_def chicken_thigh_plate_def mk_meal_def WEIGHTS_def)
  have n: "sodium_rule salty_steak ''normal'' (50, []) = (48, [])"
    by (simp add: sodium_rule_def salty_steak_def WEIGHTS_def)
  have p: "protein_type chicken_thigh_plate \<noteq> ''pork''" "mismatch_protein_pref WEIGHTS = 4"
    by (simp_all add: chicken_thigh_plate_def mk_meal_def WEIGHTS_def)
  show ?thesis
    using unrecognized_values[of "''brunch''" chicken_thigh_plate "(50, [])" neutral_answers
        "''none''" "''hot''" "''keto''" "''moderate''" "''pork''"]
      unrecognized_values[of "''brunch''" salty_steak "(50, [])" neutral_answers
        "''none''" "''hot''" "''keto''" "''moderate''" "''pork''"]
      v s g n p
    by simp
qed

section \<open>The recommender\<close>

subsection \<open>Disqualification\<close>

lemma advisory_flags_dairy:
  "''dairy?'' \<in> set (allergens m) \<Longrightarrow> ''omit butter to be dairy-free'' \<in> set (advisory_flags m)"
  by (simp add: advisory_flags_def)

lemma advisory_flags_gluten:
  "''gluten?'' \<in> set (allergens m) \<Longrightarrow> ''gluten depends on ingredients'' \<in> set (advisory_flags m)"
  by (simp add: advisory_flags_def)

lemma score_meal_flags: "\<not> conflicts m a \<Longrightarrow> snd (snd (score_meal m a)) = advisory_flags m"
  by (simp add: score_meal_def split_beta)

lemma spec_base_tag_cases: "spec_base_tag t = t \<or> (\<exists>b. t = b @ ''?'' \<and> spec_base_tag t = b)"
  by (cases t rule: rev_cases) (auto simp: spec_base_tag_def)

lemma catalog_conditional_tags:
  assumes "m \<in> set MEALS" and "t \<in> set (allergens m)" and "spec_base_tag t \<noteq> t"
  shows "t = ''gluten?'' \<or> t = ''dairy?''"
  using assms by (auto simp: MEALS_def catalog_allergens spec_base_tag_def)

lemma survivor_appears:
  assumes "shuffle_permutes R" and "m \<in> set (catalog w)" and "\<not> conflicts m a"
    and "int (length (survivors (catalog w) a)) \<le> k"
  shows "package (entry a m) \<in> set (top_recommendations (fst (recommend R a k seed w)))"
proof -
  have "m \<in> set (survivors (catalog w) a)"
    using assms(2,3) by (simp add: survivors_conflicts)
  then show ?thesis
    using recommend_set_all[OF assms(1,4), of seed] by blast
qed

lemma excluded_name:
  assumes "shuffle_permutes R" and "distinct (map name (catalog w))"
    and "m \<in> set (catalog w)" and "conflicts m a"
  shows "name m \<notin> out_name ` set (top_recommendations (fst (recommend R a k seed w)))"
proof -
  have "name m \<notin> name ` set (survivors (catalog w) a)"
  proof
    assume "name m \<in> name ` set (survivors (catalog w) a)"
    then obtain m' where m': "m' \<in> set (catalog w)" "\<not> conflicts m' a" "name m' = name m"
      by (auto simp: survivors_conflicts)
    have "inj_on name (set (catalog w))"
      using assms(2) by (simp add: distinct_map)
    then have "m' = m"
      using m'(1,3) assms(3) by (auto dest: inj_onD)
    with m'(2) assms(4) show False by simp
  qed
  then show ?thesis
    using recommend_names[OF assms(1), of a k seed w] by blast
qed

text \<open>
  \<^bold>\<open>C1\<close>, as the code has it. The avoidance test compares the tags as they are written.
  For a meal of the catalog, whatever \<open>top_k\<close> and the seed are:
  when a tag of the meal is itself one of the avoided strings, \<open>score_meal\<close> returns
  exactly the sentinel triple and no record of \<open>recommend\<close> bears the name of the meal;
  when no tag of the meal is itself one of the avoided strings, the meal is not
  disqualified: its score is 50 plus the adjustments of the six blocks, at least 0, its
  flags are the advisory flags (the one for \<^verbatim>\<open>dairy?\<close> and the one for \<^verbatim>\<open>gluten?\<close> when
  the meal carries the tag), and its record is returned whenever \<open>top_k\<close> covers the
  surviving meals. In the catalog \<open>MEALS\<close> a tag that is avoided only once its marker is
  stripped is \<^verbatim>\<open>gluten?\<close> or \<^verbatim>\<open>dairy?\<close>, so such a meal carries the flag of that tag.
  The names of the catalog are distinct (lemma \<open>catalog_names_distinct\<close> for \<open>MEALS\<close>),
  and the shuffle of the library permutes.
\<close>

theorem disqualification_exact_tags:
  assumes "shuffle_permutes R" and "distinct (map name (catalog w))"
    and "m \<in> set (catalog w)"
  shows "(set (allergens m) \<inter> set (avoids a) \<noteq> {} \<longrightarrow>
           score_meal m a = (- 999, [''conflicts with avoidances''], [''contains allergen'']) \<and>
           name m \<notin> out_name ` set (top_recommendations (fst (recommend R a k seed w)))) \<and>
         (set (allergens m) \<inter> set (avoids a) = {} \<longrightarrow>
           fst (score_meal m a) =
             50 + protein_adjust m (protein_pref a) + goal_adjust m (goal a)
                + timing_adjust m (timing a) + effort_adjust m (AnswerSet.effort a)
                + sodium_adjust m (sodium_pref a) + spice_adjust m (spice_pref a) \<and>
           0 \<le> fst (score_meal m a) \<and>
           snd (snd (score_meal m a)) = advisory_flags m \<and>
           (''dairy?'' \<in> set (allergens m) \<longrightarrow>
              ''omit butter to be dairy-free'' \<in> set (snd (snd (score_meal m a)))) \<and>
           (''gluten?'' \<in> set (allergens m) \<longrightarrow>
              ''gluten depends on ingredients'' \<in> set (snd (snd (score_meal m a)))) \<and>
           (int (length (survivors (catalog w) a)) \<le> k \<longrightarrow>
              package (entry a m) \<in> set (top_recommendations (fst (recommend R a k seed w)))) \<and>
           (catalog w = MEALS \<longrightarrow>
              (\<forall>t \<in> set (allergens m). spec_base_tag t \<in> set (avoids a) \<longrightarrow>
                 t = ''gluten?'' \<and>
                   ''gluten depends on ingredients'' \<in> set (snd (snd (score_meal m a))) \<or>
                 t = ''dairy?'' \<and>
                   ''omit butter to be dairy-free'' \<in> set (snd (snd (score_meal m a))))))"
proof (intro conjI impI)
  assume x: "set (allergens m) \<inter> set (avoids a) \<noteq> {}"
  then have c: "conflicts m a" by (simp add: conflicts_iff)
  show "score_meal m a = (- 999, [''conflicts with avoidances''], [''contains allergen''])"
    by (rule score_meal_conflict[OF c])
  show "name m \<notin> out_name ` set (top_recommendations (fst (recommend R a k seed w)))"
    by (rule excluded_name[OF assms c])
next
  assume x: "set (allergens m) \<inter> set (avoids a) = {}"
  then have c: "\<not> conflicts m a" by (simp add: conflicts_iff)
  note f = score_meal_flags[OF c]
  show "fst (score_meal m a) =
             50 + protein_adjust m (protein_pref a) + goal_adjust m (goal a)
                + timing_adjust m (timing a) + effort_adjust m (AnswerSet.effort a)
                + sodium_adjust m (sodium_pref a) + spice_adjust m (spice_pref a)"
    by (rule score_meal_sum[OF c])
  show "0 \<le> fst (score_meal m a)"
    using score_meal_bounds[OF c] by simp
  show "snd (snd (score_meal m a)) = advisory_flags m" by (rule f)
  show "''omit butter to be dairy-free'' \<in> set (snd (snd (score_meal m a)))"
    if "''dairy?'' \<in> set (allergens m)"
    using advisory_flags_dairy[OF that] by (simp add: f)
  show "''gluten depends on ingredients'' \<in> set (snd (snd (score_meal m a)))"
    if "''gluten?'' \<in> set (allergens m)"
    using advisory_flags_gluten[OF that] by (simp add: f)
  show "package (entry a m) \<in> set (top_recommendations (fst (recommend R a k seed w)))"
    if "int (length (survivors (catalog w) a)) \<le> k"
    by (rule survivor_appears[OF assms(1,3) c that])
  show "\<forall>t \<in> set (allergens m). spec_base_tag t \<in> set (avoids a) \<longrightarrow>
                 t = ''gluten?'' \<and>
                   ''gluten depends on ingredients'' \<in> set (snd (snd (score_meal m a))) \<or>
                 t = ''dairy?'' \<and>
                   ''omit butter to be dairy-free'' \<in> set (snd (snd (score_meal m a)))"
    if w: "catalog w = MEALS"
  proof (intro ballI impI)
    fix t assume t: "t \<in> set (allergens m)" and b: "spec_base_tag t \<in> set (avoids a)"
    have "t \<notin> set (avoids a)" using x t by blast
    with b have "spec_base_tag t \<noteq> t" by auto
    then have "t = ''gluten?'' \<or> t = ''dairy?''"
      using catalog_conditional_tags[of m t] assms(3) w t by simp
    then show "t = ''gluten?'' \<and>
                   ''gluten depends on ingredients'' \<in> set (snd (snd (score_meal m a))) \<or>
                 t = ''dairy?'' \<and>
                   ''omit butter to be dairy-free'' \<in> set (snd (snd (score_meal m a)))"
      using t advisory_flags_dairy[of m] advisory_flags_gluten[of m] by (auto simp: f)
  qed
qed


text \<open>
  With the markers stripped, as C1 reads the tags, the property fails: the steak plate
  carries \<^verbatim>\<open>dairy?\<close>, the user avoids \<^verbatim>\<open>dairy\<close>, and the meal is scored 50, flagged
  \<^verbatim>\<open>omit butter to be dairy-free\<close> and recommended.
\<close>

theorem disqualification_counterexample:
  "set (map spec_base_tag (allergens beef_steak_plate)) \<inter> set (avoids dairy_avoider) \<noteq> {} \<and>
   score_meal beef_steak_plate dairy_avoider = (50, [], [''omit butter to be dairy-free'']) \<and>
   ''Beef Steak Plate'' \<in> out_name ` set (top_recommendations
       (fst (recommend demo_random dairy_avoider 12 None (initial_world 0))))"
proof -
  have "set (map spec_base_tag (allergens beef_steak_plate)) \<inter> set (avoids dairy_avoider) \<noteq> {}"
    by (simp add: catalog_allergens spec_base_tag_def dairy_avoider_def)
  moreover have "''Beef Steak Plate'' \<in> out_name ` set (top_recommendations
       (fst (recommend demo_random dairy_avoider 12 None (initial_world 0))))"
  proof -
    have "int (length (survivors (catalog (initial_world (0::int))) dairy_avoider)) \<le> 12"
      using length_filter_le[of "\<lambda>m. fst (score_meal m dairy_avoider) > - 500" MEALS]
      by (simp add: survivors_def initial_world_simps MEALS_length)
    then have "set (top_recommendations
        (fst (recommend demo_random dairy_avoider 12 None (initial_world 0)))) =
        package ` entry dairy_avoider ` set (survivors MEALS dairy_avoider)"
      using recommend_set_all[OF demo_random_permutes, of "initial_world 0" dairy_avoider 12 None]
      by (simp add: initial_world_simps)
    moreover have "beef_steak_plate \<in> set (survivors MEALS dairy_avoider)"
      by (simp add: survivors_conflicts beef_dairy_no_conflict MEALS_def)
    ultimately have "package (entry dairy_avoider beef_steak_plate) \<in> set (top_recommendations
        (fst (recommend demo_random dairy_avoider 12 None (initial_world 0))))"
      by blast
    then have "out_name (package (entry dairy_avoider beef_steak_plate)) \<in> out_name ` set
        (top_recommendations (fst (recommend demo_random dairy_avoider 12 None (initial_world 0))))"
      by (rule imageI)
    then show ?thesis by (simp add: out_name_package catalog_names)
  qed
  ultimately show ?thesis using beef_dairy_score by simp
qed

theorem disqualification_exact_tags_witness:
  "shuffle_permutes demo_random \<and>
   distinct (map name (catalog (initial_world (0::int)))) \<and>
   grilled_salmon_bowl \<in> set (catalog (initial_world (0::int))) \<and>
   beef_steak_plate \<in> set (catalog (initial_world (0::int))) \<and>
   set (allergens grilled_salmon_bowl) \<inter> set (avoids dairy_avoider) \<noteq> {} \<and>
   score_meal grilled_salmon_bowl dairy_avoider =
     (- 999, [''conflicts with avoidances''], [''contains allergen'']) \<and>
   ''Grilled Salmon Bowl'' \<notin> out_name ` set (top_recommendations
       (fst (recommend demo_random dairy_avoider 3 (Some 42) (initial_world 0)))) \<and>
   set (allergens beef_steak_plate) \<inter> set (avoids dairy_avoider) = {} \<and>
   ''dairy?'' \<in> set (allergens beef_steak_plate) \<and>
   spec_base_tag ''dairy?'' \<in> set (avoids dairy_avoider) \<and>
   fst (score_meal beef_steak_plate dairy_avoider) = 50 \<and>
   ''omit butter to be dairy-free'' \<in> set (snd (snd (score_meal beef_steak_plate dairy_avoider))) \<and>
   int (length (survivors (catalog (initial_world (0::int))) dairy_avoider)) \<le> 12 \<and>
   package (entry dairy_avoider beef_steak_plate) \<in> set (top_recommendations
       (fst (recommend demo_random dairy_avoider 12 (Some 42) (initial_world 0))))"
proof -
  have d: "distinct (map name (catalog (initial_world (0::int))))"
    by (simp add: initial_world_simps catalog_names_distinct)
  have i: "grilled_salmon_bowl \<in> set (catalog (initial_world (0::int)))"
    "beef_steak_plate \<in> set (catalog (initial_world (0::int)))"
    by (simp_all add: initial_world_simps MEALS_def)
  have x: "set (allergens grilled_salmon_bowl) \<inter> set (avoids dairy_avoider) \<noteq> {}"
    "set (allergens beef_steak_plate) \<inter> set (avoids dairy_avoider) = {}"
    "''dairy?'' \<in> set (allergens beef_steak_plate)"
    "spec_base_tag ''dairy?'' \<in> set (avoids dairy_avoider)"
    by (simp_all add: catalog_allergens dairy_avoider_def spec_base_tag_def)
  have l: "int (length (survivors (catalog (initial_world (0::int))) dairy_avoider)) \<le> 12"
    using length_filter_le[of "\<lambda>m. fst (score_meal m dairy_avoider) > - 500" MEALS]
    by (simp add: survivors_def initial_world_simps MEALS_length)
  have af: "advisory_flags beef_steak_plate = [''omit butter to be dairy-free'']"
    by (simp add: advisory_flags_def catalog_allergens)
  show ?thesis
    using disqualification_exact_tags[OF demo_random_permutes d i(1),
        of dairy_avoider 3 "Some 42"]
      disqualification_exact_tags[OF demo_random_permutes d i(2),
        of dairy_avoider 12 "Some 42"]
      demo_random_permutes d i x l beef_dairy_score
    by (simp add: catalog_names af)
qed


subsection \<open>Avoiding all seven allergens\<close>

lemma avoid_all_survivors:
  assumes "set (avoids a) = set all_avoidances"
  shows "survivors MEALS a =
    [lentil_curry_rice, turkey_chili, beef_steak_plate, sardine_avocado_toast, chickpea_pasta]"
  by (simp add: survivors_conflicts conflicts_iff assms MEALS_def catalog_allergens
      all_avoidances_def)

text \<open>
  \<^bold>\<open>C2\<close>, as the code has it. Five meals of the catalog carry none of the seven allergens
  as a tag: three have no tag at all, the steak plate has only \<^verbatim>\<open>dairy?\<close>, and the
  sardine toast only \<^verbatim>\<open>gluten?\<close> and \<^verbatim>\<open>fish\<close>. So when all seven are
  avoided, \<open>recommend\<close> returns the usual explanation and \<open>min top_k 5\<close> of these five
  meals (for a negative \<open>top_k\<close>, \<open>5 + top_k\<close> of them, and none below \<open>-5\<close>).
\<close>

theorem avoid_all_result:
  assumes "shuffle_permutes R" and "catalog w = MEALS"
    and "set (avoids a) = set all_avoidances"
  shows "explanation (fst (recommend R a k seed w)) = helper_message \<and>
         int (length (top_recommendations (fst (recommend R a k seed w)))) =
           (if 0 \<le> k then min k 5 else max 0 (5 + k)) \<and>
         out_name ` set (top_recommendations (fst (recommend R a k seed w))) \<subseteq>
           {''Lentil Curry + Rice'', ''Turkey Chili (Lean)'', ''Beef Steak Plate'',
            ''Sardine Avocado Toast'', ''Chickpea Pasta Primavera''}"
proof -
  note s = avoid_all_survivors[OF assms(3)]
  have "explanation (fst (recommend R a k seed w)) = helper_message"
    by (simp add: recommend_explanation assms(2) s)
  moreover have "int (length (top_recommendations (fst (recommend R a k seed w)))) =
           (if 0 \<le> k then min k 5 else max 0 (5 + k))"
    using recommend_length[OF assms(1), of a k seed w]
    by (auto simp add: assms(2) s length_slice_to)
  moreover have "out_name ` set (top_recommendations (fst (recommend R a k seed w))) \<subseteq>
           {''Lentil Curry + Rice'', ''Turkey Chili (Lean)'', ''Beef Steak Plate'',
            ''Sardine Avocado Toast'', ''Chickpea Pasta Primavera''}"
    using recommend_names[OF assms(1), of a k seed w]
    by (simp add: assms(2) s catalog_names)
  ultimately show ?thesis by simp
qed

lemma avoid_all_entries:
  "entry avoid_all_answers lentil_curry_rice =
     (58, lentil_curry_rice, [''maintenance-friendly calories''], [])"
  "entry avoid_all_answers turkey_chili =
     (58, turkey_chili, [''maintenance-friendly calories''], [])"
  "entry avoid_all_answers beef_steak_plate =
     (50, beef_steak_plate, [], [''omit butter to be dairy-free''])"
  "entry avoid_all_answers sardine_avocado_toast =
     (58, sardine_avocado_toast, [''maintenance-friendly calories''],
      [''gluten depends on ingredients''])"
  "entry avoid_all_answers chickpea_pasta =
     (58, chickpea_pasta, [''maintenance-friendly calories''], [])"
  by (simp_all add: entry_def score_meal_def conflicts_iff catalog_allergens
      avoid_all_answers_def all_avoidances_def neutral_answers_def)
     (simp_all add: meal_defs rule_defs)

text \<open>The result C2 expects, an empty list with the no-meals message, is not what is
  returned: with the default \<open>top_k = 3\<close> and no seed the three records are those of the
  first three surviving meals with the highest score, 58.\<close>

theorem avoid_all_counterexample:
  "set (avoids avoid_all_answers) = set all_avoidances \<and>
   catalog (initial_world (0::int)) = MEALS \<and>
   allergens lentil_curry_rice = [] \<and>
   map out_name (top_recommendations
       (fst (recommend demo_random avoid_all_answers 3 None (initial_world 0)))) =
     [''Lentil Curry + Rice'', ''Turkey Chili (Lean)'', ''Sardine Avocado Toast''] \<and>
   explanation (fst (recommend demo_random avoid_all_answers 3 None (initial_world 0))) =
     ''Simple terminal helper for meal ideas.''"
proof -
  have a: "set (avoids avoid_all_answers) = set all_avoidances"
    by (simp add: avoid_all_answers_def)
  note s = avoid_all_survivors[OF a]
  have "map out_name (top_recommendations
       (fst (recommend demo_random avoid_all_answers 3 None (initial_world 0)))) =
     [''Lentil Curry + Rice'', ''Turkey Chili (Lean)'', ''Sardine Avocado Toast'']"
    by (simp add: recommend_top initial_world_simps s avoid_all_entries slice_to_def
        package_def catalog_names)
  moreover have "explanation (fst (recommend demo_random avoid_all_answers 3 None (initial_world 0))) =
     ''Simple terminal helper for meal ideas.''"
    by (simp add: recommend_explanation initial_world_simps s helper_message_def)
  ultimately show ?thesis using a by (simp add: initial_world_simps catalog_allergens)
qed

theorem avoid_all_result_witness:
  "shuffle_permutes demo_random \<and> catalog (initial_world (0::int)) = MEALS \<and>
   set (avoids avoid_all_answers) = set all_avoidances \<and>
   explanation (fst (recommend demo_random avoid_all_answers 3 (Some 42) (initial_world 0))) =
     helper_message \<and>
   length (top_recommendations
     (fst (recommend demo_random avoid_all_answers 3 (Some 42) (initial_world 0)))) = 3"
proof -
  have a: "set (avoids avoid_all_answers) = set all_avoidances"
    by (simp add: avoid_all_answers_def)
  have c: "catalog (initial_world (0::int)) = MEALS"
    by (simp add: initial_world_simps)
  show ?thesis
    using avoid_all_result[OF demo_random_permutes c a, of 3 "Some 42"] demo_random_permutes a c
    by simp
qed

subsection \<open>The number of recommendations\<close>

lemma top_k_length:
  assumes "shuffle_permutes R"
  shows "int (length (top_recommendations (fst (recommend R a k seed w)))) =
         (let n = int (length (filter (\<lambda>m. fst (score_meal m a) > - 500) (catalog w)))
          in if 0 \<le> k then min k n else max 0 (n + k))"
  using recommend_length[OF assms, of a k seed w]
  by (auto simp add: length_slice_to survivors_def Let_def)


text \<open>
  \<^bold>\<open>C6.\<close> Top-K bound: for a number \<open>top_k\<close> of meals to show, the number of records
  returned is the minimum of \<open>top_k\<close> and the number of catalog meals whose score is
  strictly greater than \<open>-500\<close>, for every answer set and every seed.
\<close>

theorem top_k_bound:
  assumes "shuffle_permutes R"
  shows "length (top_recommendations (fst (recommend R a (int top_k) seed w))) =
         min top_k (length (filter (\<lambda>m. fst (score_meal m a) > - 500) (catalog w)))"
  using recommend_length[OF assms, of a "int top_k" seed w]
  by (simp add: length_slice_to survivors_def)


theorem top_k_bound_witness:
  "shuffle_permutes demo_random \<and>
   length (top_recommendations
      (fst (recommend demo_random neutral_answers 3 (Some 42) (initial_world 0)))) = 3 \<and>
   length (top_recommendations
      (fst (recommend demo_random neutral_answers 40 (Some 42) (initial_world 0)))) = 12 \<and>
   length (top_recommendations
      (fst (recommend demo_random neutral_answers 0 None (initial_world 0)))) = 0"
  using top_k_bound[OF demo_random_permutes, of neutral_answers 3 "Some 42" "initial_world 0"]
    top_k_bound[OF demo_random_permutes, of neutral_answers 40 "Some 42" "initial_world 0"]
    top_k_bound[OF demo_random_permutes, of neutral_answers 0 None "initial_world 0"]
    neutral_survivors demo_random_permutes
  by (simp add: initial_world_simps MEALS_length survivors_def)


text \<open>
  The option \<^verbatim>\<open>--top\<close> is parsed as an integer and not checked. A negative value reaches
  the slice \<^verbatim>\<open>scored[:top_k]\<close>, which then drops the last entries: with \<^verbatim>\<open>--top -1\<close> and
  the neutral answers eleven of the twelve meals are returned, where the help text of
  the option calls the value the number of meals to show.
\<close>

lemma negative_top_k_example:
  "length (top_recommendations
     (fst (recommend demo_random neutral_answers (- 1) None (initial_world (0::int))))) = 11"
  using top_k_length[OF demo_random_permutes, of neutral_answers "- 1" None "initial_world 0"]
    neutral_survivors
  by (simp add: initial_world_simps MEALS_length survivors_def)

subsection \<open>Seeding\<close>

text \<open>
  \<^bold>\<open>C5.\<close> Seeded reproducibility: with an integer seed the result of \<open>recommend\<close> does not
  depend on the state of the global generator before the call, and an earlier call of
  \<open>recommend\<close>, with any arguments, does not change the result of a later seeded call. So
  two invocations with the same answers, \<open>top_k\<close> and seed return the same records in
  the same order.
\<close>

theorem seeded_reproducibility:
  "fst (recommend R a k (Some s) (w\<lparr> rng := g \<rparr>)) = fst (recommend R a k (Some s) w) \<and>
   fst (recommend R a k (Some s) (snd (recommend R a' k' seed' w))) =
     fst (recommend R a k (Some s) w)"
proof -
  have "fst (recommend R a k (Some s) (w\<lparr> rng := g \<rparr>)) = fst (recommend R a k (Some s) w)"
    by (rule recommend_result_eq) simp
  moreover have "fst (recommend R a k (Some s) (snd (recommend R a' k' seed' w))) =
     fst (recommend R a k (Some s) w)"
    by (rule recommend_result_eq) (rule recommend_catalog)
  ultimately show ?thesis by simp
qed

theorem seeded_reproducibility_witness:
  "fst (recommend demo_random neutral_answers 3 (Some 42) (initial_world 7)) =
     fst (recommend demo_random neutral_answers 3 (Some 42) (initial_world 0)) \<and>
   fst (recommend demo_random neutral_answers 3 (Some 42)
         (snd (recommend demo_random neutral_answers 3 (Some 42) (initial_world 0)))) =
     fst (recommend demo_random neutral_answers 3 (Some 42) (initial_world 0))"
proof -
  have "initial_world (7::int) = (initial_world 0)\<lparr> rng := 7 \<rparr>"
    by (simp add: initial_world_def)
  then show ?thesis
    using seeded_reproducibility[where R = demo_random and a = neutral_answers and k = 3
        and s = 42 and w = "initial_world 0" and g = 7 and a' = neutral_answers and k' = 3
        and seed' = "Some 42"]
    by simp
qed

text \<open>
  \<^bold>\<open>C4\<close>, as the code has it. Without a seed \<open>recommend\<close> returns the global state as it
  got it. With an integer seed and at least one surviving meal it calls \<^verbatim>\<open>random.seed\<close>
  and \<^verbatim>\<open>random.shuffle\<close> on the generator of the module, which is left in the state that
  the shuffle reaches from the seeded state: a state that does not depend on the state
  before the call. When no meal survives, \<open>recommend\<close> returns before it seeds.
\<close>

theorem generator_state_after:
  "snd (recommend R a k None w) = w \<and>
   snd (recommend R a k (Some s) w) =
     (if survivors (catalog w) a = [] then w
      else w\<lparr> rng := snd (random_shuffle R (random_seed R s) (scored_loop (catalog w) a [])) \<rparr>) \<and>
   rng (snd (recommend R a k (Some s) (w\<lparr> rng := g \<rparr>))) =
     (if survivors (catalog w) a = [] then g else rng (snd (recommend R a k (Some s) w)))"
  by (simp add: recommend_world_None recommend_world_Some)

text \<open>So the tie-breaking is not local to the call, as C4 has it: a seeded call overwrites
  the generator. In the run below the generator is in state 0 before the call and in
  state 43 after it.\<close>

theorem generator_state_counterexample:
  "rng (initial_world (0::int)) = 0 \<and>
   rng (snd (recommend demo_random neutral_answers 3 (Some 42) (initial_world 0))) = 43"
  by (simp add: recommend_world_Some initial_world_simps neutral_survivors)
     (simp add: MEALS_def demo_random_def)

theorem generator_state_after_witness:
  "snd (recommend demo_random neutral_answers 3 None (initial_world 0)) = initial_world 0 \<and>
   rng (snd (recommend demo_random neutral_answers 3 (Some 42) (initial_world 7))) =
     rng (snd (recommend demo_random neutral_answers 3 (Some 42) (initial_world 0)))"
proof -
  have "initial_world (7::int) = (initial_world 0)\<lparr> rng := 7 \<rparr>"
    by (simp add: initial_world_def)
  moreover have "survivors (catalog (initial_world (0::int))) neutral_answers \<noteq> []"
    by (simp add: initial_world_simps neutral_survivors) (simp add: MEALS_def)
  ultimately show ?thesis
    using generator_state_after[where R = demo_random and a = neutral_answers and k = 3
        and w = "initial_world 0" and s = 42 and g = 7]
    by simp
qed

text \<open>Whatever the library is, a call with a seed cannot leave every state of the
  generator as it was: the state after the call is the same for all states before it.\<close>

lemma seeded_call_changes_generator:
  "\<exists>g::int. rng (snd (recommend R neutral_answers 3 (Some 42) (initial_world g))) \<noteq> g"
proof -
  define c where "c = rng (snd (recommend R neutral_answers 3 (Some 42) (initial_world 0)))"
  have "rng (snd (recommend R neutral_answers 3 (Some 42) (initial_world g))) = c" for g
    by (simp add: c_def recommend_world_Some initial_world_simps neutral_survivors)
       (simp add: MEALS_def)
  then have "rng (snd (recommend R neutral_answers 3 (Some 42) (initial_world (c + 1)))) \<noteq> c + 1"
    by simp
  then show ?thesis ..
qed

section \<open>Side effects\<close>

subsection \<open>Reading the store\<close>

lemma get_list_bound: "get_list h a = Some vs \<Longrightarrow> a < length h"
  by (simp add: get_list_def lookup_def split: if_splits)

lemma get_meal_bound: "get_meal h a = Some ob \<Longrightarrow> a < length h"
  by (simp add: get_meal_def lookup_def split: if_splits)

lemma lookup_prefix: "prefix h0 h \<Longrightarrow> a < length h0 \<Longrightarrow> lookup h a = lookup h0 a"
  by (auto simp: prefix_def lookup_def nth_append)

lemma get_list_prefix: "prefix h0 h \<Longrightarrow> get_list h0 a = Some vs \<Longrightarrow> get_list h a = Some vs"
  using lookup_prefix[of h0 h a] get_list_bound[of h0 a vs] by (simp add: get_list_def)

lemma get_meal_prefix: "prefix h0 h \<Longrightarrow> get_meal h0 a = Some ob \<Longrightarrow> get_meal h a = Some ob"
  using lookup_prefix[of h0 h a] get_meal_bound[of h0 a ob] by (simp add: get_meal_def)

lemma get_strs_prefix: "prefix h0 h \<Longrightarrow> get_strs h0 a = Some ss \<Longrightarrow> get_strs h a = Some ss"
  by (auto simp: get_strs_def dest: get_list_prefix split: option.splits)

lemma load_meal_prefix:
  assumes "prefix h0 h" and "load_meal h0 m = Some meal"
  shows "load_meal h m = Some meal"
proof -
  from assms(2) obtain ob its als nts where
    ob: "get_meal h0 m = Some ob" and
    l: "get_strs h0 (o_items ob) = Some its" "get_strs h0 (o_allergens ob) = Some als"
       "get_strs h0 (o_notes ob) = Some nts"
    by (auto simp: load_meal_def split: option.splits)
  from assms(2) show ?thesis
    by (simp add: load_meal_def get_meal_prefix[OF assms(1) ob] l
        get_strs_prefix[OF assms(1) l(1)] get_strs_prefix[OF assms(1) l(2)]
        get_strs_prefix[OF assms(1) l(3)] ob)
qed

lemma prefix_alloc: "prefix h (snd (alloc c h))"
  by (simp add: alloc_def)

lemma prefix_update: "prefix h0 h \<Longrightarrow> length h0 \<le> a \<Longrightarrow> prefix h0 (h[a := c])"
  by (auto simp: prefix_def list_update_append)

lemma get_list_update_same: "a < length h \<Longrightarrow> get_list (h[a := ListCell vs]) a = Some vs"
  by (simp add: get_list_def lookup_def)

lemma get_list_update_other: "a \<noteq> b \<Longrightarrow> get_list (h[a := c]) b = get_list h b"
  by (simp add: get_list_def lookup_def)

lemma get_list_last: "get_list (h @ [ListCell vs]) (length h) = Some vs"
  by (simp add: get_list_def lookup_def)

lemma those_strs: "those (map str_of (map VStr ss)) = Some ss"
  by (induction ss) simp_all

lemma get_strs_list: "get_list h a = Some (map VStr ss) \<Longrightarrow> get_strs h a = Some ss"
  by (simp add: get_strs_def those_strs del: map_map)

lemma get_strs_is_list: "get_strs h a = Some ss \<Longrightarrow> \<exists>vs. get_list h a = Some vs"
  by (simp add: get_strs_def split: option.splits)

lemma set_list_some: "get_list h a = Some old \<Longrightarrow> set_list a vs h = Some (h[a := ListCell vs])"
  by (simp add: set_list_def)

lemma list_append_some:
  "get_list h a = Some vs \<Longrightarrow> list_append a v h = Some (h[a := ListCell (vs @ [v])])"
  by (simp add: list_append_def)

lemma run_block_inv:
  assumes "blocks_inv h h' rs" and "load_meal h m = Some meal"
  shows "\<exists>h''. run_block blk m (length h) (sc, h') =
                 Some (fst (blk meal (sc, rs)), h'') \<and>
               blocks_inv h h'' (snd (blk meal (sc, rs)))"
proof -
  from assms(1) have p: "prefix h h'" and n: "length h' = length h + 2"
    and r: "get_strs h' (length h) = Some rs" and f: "get_list h' (length h + 1) = Some []"
    by (simp_all add: blocks_inv_def)
  obtain old where old: "get_list h' (length h) = Some old"
    using get_strs_is_list[OF r] by blast
  define rs' where "rs' = snd (blk meal (sc, rs))"
  define h'' where "h'' = h'[length h := ListCell (map VStr rs')]"
  have "run_block blk m (length h) (sc, h') = Some (fst (blk meal (sc, rs)), h'')"
    by (simp add: run_block_def load_meal_prefix[OF p assms(2)] r split_beta
        set_list_some[OF old] h''_def rs'_def)
  moreover have "blocks_inv h h'' rs'"
    unfolding blocks_inv_def h''_def
    using prefix_update[OF p, of "length h"] n f
    by (simp add: get_list_update_other get_strs_list get_list_update_same)
  ultimately show ?thesis by (auto simp: rs'_def)
qed

lemma score_meal_h_spec:
  assumes "load_meal h m = Some meal"
  shows "\<exists>r f h'. score_meal_h m ans h = Some ((fst (score_meal meal ans), r, f), h') \<and>
           prefix h h' \<and>
           get_strs h' r = Some (fst (snd (score_meal meal ans))) \<and>
           get_strs h' f = Some (snd (snd (score_meal meal ans)))"
proof -
  define h2 where "h2 = h @ [ListCell [], ListCell []]"
  have p2: "prefix h h2" by (simp add: h2_def)
  note l2 = load_meal_prefix[OF p2 assms]
  have unfold: "score_meal_h m ans h =
     (if conflicts meal ans then
        Some ((- 999, length h2, length h2 + 1),
              h2 @ [ListCell [VStr ''conflicts with avoidances''], ListCell [VStr ''contains allergen'']])
      else
        Option.bind (run_block (\<lambda>meal. protein_rule meal (protein_pref ans)) m (length h) (50, h2))
         (\<lambda>st. Option.bind (run_block (\<lambda>meal. goal_rule meal (goal ans)) m (length h) st)
         (\<lambda>st. Option.bind (run_block (\<lambda>meal. timing_rule meal (timing ans)) m (length h) st)
         (\<lambda>st. Option.bind (run_block (\<lambda>meal. effort_rule meal (AnswerSet.effort ans)) m (length h) st)
         (\<lambda>st. Option.bind (run_block (\<lambda>meal. sodium_rule meal (sodium_pref ans)) m (length h) st)
         (\<lambda>st. Option.bind (run_block (\<lambda>meal. spice_rule meal (spice_pref ans)) m (length h) st)
           (flag_step m (length h) (length h + 1))))))))"
    using l2 by (simp add: score_meal_h_def alloc_def h2_def)
  show ?thesis
  proof (cases "conflicts meal ans")
    case True
    have "get_strs (h2 @ [ListCell [VStr ''conflicts with avoidances''],
             ListCell [VStr ''contains allergen'']]) (length h2) = Some [''conflicts with avoidances'']"
      by (simp add: get_strs_def get_list_def lookup_def nth_append)
    moreover have "get_strs (h2 @ [ListCell [VStr ''conflicts with avoidances''],
             ListCell [VStr ''contains allergen'']]) (length h2 + 1) = Some [''contains allergen'']"
      by (simp add: get_strs_def get_list_def lookup_def nth_append)
    moreover have "prefix h (h2 @ [ListCell [VStr ''conflicts with avoidances''],
             ListCell [VStr ''contains allergen'']])"
      by (simp add: h2_def)
    ultimately show ?thesis
      using True by (simp add: unfold score_meal_conflict)
  next
    case False
    have i0: "blocks_inv h h2 []"
      by (simp add: blocks_inv_def h2_def get_strs_def get_list_def lookup_def nth_append)
    define st0 :: running where "st0 = (50, [])"
    define st1 where "st1 = protein_rule meal (protein_pref ans) st0"
    define st2 where "st2 = goal_rule meal (goal ans) st1"
    define st3 where "st3 = timing_rule meal (timing ans) st2"
    define st4 where "st4 = effort_rule meal (AnswerSet.effort ans) st3"
    define st5 where "st5 = sodium_rule meal (sodium_pref ans) st4"
    define st6 where "st6 = spice_rule meal (spice_pref ans) st5"
    obtain h3 where b1: "run_block (\<lambda>meal. protein_rule meal (protein_pref ans)) m (length h) (50, h2)
        = Some (fst st1, h3)" and i1: "blocks_inv h h3 (snd st1)"
      using run_block_inv[OF i0 assms, of "\<lambda>meal. protein_rule meal (protein_pref ans)" 50]
      by (auto simp: st1_def st0_def)
    obtain h4 where b2: "run_block (\<lambda>meal. goal_rule meal (goal ans)) m (length h) (fst st1, h3)
        = Some (fst st2, h4)" and i2: "blocks_inv h h4 (snd st2)"
      using run_block_inv[OF i1 assms, of "\<lambda>meal. goal_rule meal (goal ans)" "fst st1"]
      by (auto simp: st2_def)
    obtain h5 where b3: "run_block (\<lambda>meal. timing_rule meal (timing ans)) m (length h) (fst st2, h4)
        = Some (fst st3, h5)" and i3: "blocks_inv h h5 (snd st3)"
      using run_block_inv[OF i2 assms, of "\<lambda>meal. timing_rule meal (timing ans)" "fst st2"]
      by (auto simp: st3_def)
    obtain h6 where b4: "run_block (\<lambda>meal. effort_rule meal (AnswerSet.effort ans)) m (length h) (fst st3, h5)
        = Some (fst st4, h6)" and i4: "blocks_inv h h6 (snd st4)"
      using run_block_inv[OF i3 assms, of "\<lambda>meal. effort_rule meal (AnswerSet.effort ans)" "fst st3"]
      by (auto simp: st4_def)
    obtain h7 where b5: "run_block (\<lambda>meal. sodium_rule meal (sodium_pref ans)) m (length h) (fst st4, h6)
        = Some (fst st5, h7)" and i5: "blocks_inv h h7 (snd st5)"
      using run_block_inv[OF i4 assms, of "\<lambda>meal. sodium_rule meal (sodium_pref ans)" "fst st4"]
      by (auto simp: st5_def)
    obtain h8 where b6: "run_block (\<lambda>meal. spice_rule meal (spice_pref ans)) m (length h) (fst st5, h7)
        = Some (fst st6, h8)" and i6: "blocks_inv h h8 (snd st6)"
      using run_block_inv[OF i5 assms, of "\<lambda>meal. spice_rule meal (spice_pref ans)" "fst st5"]
      by (auto simp: st6_def)
    from i6 have p8: "prefix h h8" and n8: "length h8 = length h + 2"
      and r8: "get_strs h8 (length h) = Some (snd st6)"
      and f8: "get_list h8 (length h + 1) = Some []"
      by (simp_all add: blocks_inv_def)
    define h9 where "h9 = h8[length h + 1 := ListCell (map VStr (advisory_flags meal))]"
    have res: "score_meal_h m ans h = Some ((fst st6, length h, length h + 1), h9)"
      using False
      by (simp add: unfold b1 b2 b3 b4 b5 b6 flag_step_def load_meal_prefix[OF p8 assms]
          set_list_some[OF f8, simplified] h9_def)
    have sm: "score_meal meal ans = (fst st6, snd st6, advisory_flags meal)"
      using False
      by (simp add: score_meal_def split_beta st6_def st5_def st4_def st3_def st2_def st1_def st0_def)
    have "prefix h h9"
      unfolding h9_def using prefix_update[OF p8, of "length h + 1"] by simp
    moreover have "get_strs h9 (length h) = Some (snd st6)"
    proof -
      obtain vs where "get_list h8 (length h) = Some vs" "those (map str_of vs) = Some (snd st6)"
        using r8 by (auto simp: get_strs_def split: option.splits)
      then show ?thesis
        by (simp add: h9_def get_strs_def get_list_update_other)
    qed
    moreover have "get_strs h9 (length h + 1) = Some (advisory_flags meal)"
      unfolding h9_def using n8
      by (simp add: get_strs_list get_list_update_same)
    ultimately show ?thesis
      by (simp add: res sm)
  qed
qed

subsection \<open>Loops and the steps of the recommender\<close>

lemma for_each_inv:
  assumes "I h"
    and xs: "\<And>h. I h \<Longrightarrow> get_list h xs = Some vs"
    and body: "\<And>h v. I h \<Longrightarrow> v \<in> set vs \<Longrightarrow> \<exists>h'. body v h = Some h' \<and> I h'"
  shows "\<exists>h'. for_each xs body i h = Some h' \<and> I h'"
  using assms(1)
proof (induction "length vs - i" arbitrary: i h)
  case 0
  then have "\<not> i < length vs" by simp
  then have "for_each xs body i h = Some h"
    by (subst for_each.simps) (simp add: xs[OF "0.prems"])
  with "0.prems" show ?case by simp
next
  case (Suc n)
  then have i: "i < length vs" by simp
  then obtain h1 where h1: "body (vs ! i) h = Some h1" "I h1"
    using body[OF Suc.prems, of "vs ! i"] by auto
  have "n = length vs - (i + 1)" using Suc.hyps(2) by simp
  from Suc.hyps(1)[OF this h1(2)] obtain h' where
    "for_each xs body (i + 1) h1 = Some h'" "I h'" by blast
  moreover have "for_each xs body i h = for_each xs body (i + 1) h1"
    by (subst for_each.simps) (simp add: xs[OF Suc.prems] i h1(1))
  ultimately show ?case by simp
qed

lemma catalog_okD:
  assumes "catalog_ok h c"
  shows "\<exists>ms. get_list h c = Some ms \<and>
           (\<forall>v \<in> set ms. \<exists>m meal. v = VRef m \<and> load_meal h m = Some meal)"
proof (cases "get_list h c")
  case None
  with assms show ?thesis by (simp add: catalog_ok_def)
next
  case (Some ms)
  with assms have a: "list_all (meal_ref h) ms"
    by (simp add: catalog_ok_def)
  have "\<exists>m meal. v = VRef m \<and> load_meal h m = Some meal" if "v \<in> set ms" for v
    using a that by (cases v) (auto simp: list_all_iff meal_ref_def)
  with Some show ?thesis by blast
qed

lemma load_meal_get_meal: "load_meal h m = Some meal \<Longrightarrow> get_meal h m \<noteq> None"
  by (auto simp: load_meal_def split: option.splits)

lemma score_step_inv:
  assumes inv: "scored_inv h0 h" and m: "load_meal h0 m = Some meal"
  shows "\<exists>h'. score_step ans (length h0) (VRef m) h = Some h' \<and> scored_inv h0 h'"
proof -
  from inv obtain ts where p: "prefix h0 h" and ts: "get_list h (length h0) = Some ts"
    and ok: "list_all (ok_entry h0) ts"
    by (auto simp: scored_inv_def split: option.splits)
  obtain r f h1 where s: "score_meal_h m ans h = Some ((fst (score_meal meal ans), r, f), h1)"
    and p1: "prefix h h1"
    using score_meal_h_spec[OF load_meal_prefix[OF p m], of ans] by blast
  have p01: "prefix h0 h1" using p p1 by (rule prefix_order.trans)
  have ts1: "get_list h1 (length h0) = Some ts" by (rule get_list_prefix[OF p1 ts])
  show ?thesis
  proof (cases "fst (score_meal meal ans) > - 500")
    case False
    then have "score_step ans (length h0) (VRef m) h = Some h1"
      by (simp add: score_step_def s)
    moreover have "scored_inv h0 h1"
      by (simp add: scored_inv_def p01 ts1 ok)
    ultimately show ?thesis by simp
  next
    case True
    define e where "e = VTuple [VInt (fst (score_meal meal ans)), VRef m, VRef r, VRef f]"
    define h2 where "h2 = h1[length h0 := ListCell (ts @ [e])]"
    have "score_step ans (length h0) (VRef m) h = Some h2"
      using True by (simp add: score_step_def s list_append_some[OF ts1] h2_def e_def)
    moreover have "ok_entry h0 e"
      using load_meal_get_meal[OF m] by (simp add: ok_entry_def e_def)
    then have "scored_inv h0 h2"
      unfolding scored_inv_def h2_def
      using prefix_update[OF p01, of "length h0"] get_list_bound[OF ts1] ok
      by (simp add: get_list_update_same)
    ultimately show ?thesis by simp
  qed
qed

lemma first_loop:
  assumes "catalog_ok h0 c"
  shows "\<exists>h. for_each c (score_step ans (length h0)) 0 (h0 @ [ListCell []]) = Some h \<and>
             scored_inv h0 h"
proof -
  from catalog_okD[OF assms] obtain ms where ms: "get_list h0 c = Some ms"
    and el: "\<And>v. v \<in> set ms \<Longrightarrow> \<exists>m meal. v = VRef m \<and> load_meal h0 m = Some meal"
    by blast
  have i0: "scored_inv h0 (h0 @ [ListCell []])"
    by (simp add: scored_inv_def get_list_last)
  show ?thesis
  proof (rule for_each_inv[where I = "scored_inv h0" and vs = ms, OF i0])
    fix h assume "scored_inv h0 h"
    then show "get_list h c = Some ms"
      using get_list_prefix[OF _ ms] by (simp add: scored_inv_def)
  next
    fix h v assume "scored_inv h0 h" "v \<in> set ms"
    then show "\<exists>h'. score_step ans (length h0) v h = Some h' \<and> scored_inv h0 h'"
      using el[of v] score_step_inv[of h0 h] by auto
  qed
qed

lemma scored_inv_update:
  assumes "scored_inv h0 h" and "list_all (ok_entry h0) vs"
  shows "scored_inv h0 (h[length h0 := ListCell vs])"
proof -
  from assms(1) obtain ts where p: "prefix h0 h" and ts: "get_list h (length h0) = Some ts"
    by (auto simp: scored_inv_def split: option.splits)
  show ?thesis
    unfolding scored_inv_def
    using prefix_update[OF p, of "length h0"] get_list_bound[OF ts] assms(2)
    by (simp add: get_list_update_same)
qed

lemma shuffle_inv:
  assumes inv: "scored_inv h0 h" and perm: "permutes_vals shuffle_fn"
  shows "\<exists>h' g'. shuffle_in_place seed_fn shuffle_fn (length h0) seed (h, g) = Some (h', g') \<and>
           scored_inv h0 h'"
proof (cases seed)
  case None
  then show ?thesis using inv by (simp add: shuffle_in_place_def)
next
  case (Some s)
  from inv obtain ts where ts: "get_list h (length h0) = Some ts"
    and ok: "list_all (ok_entry h0) ts"
    by (auto simp: scored_inv_def split: option.splits)
  have "set (fst (shuffle_fn (seed_fn s) ts)) = set ts"
  proof (rule mset_eq_setD)
    show "mset (fst (shuffle_fn (seed_fn s) ts)) = mset ts"
      using perm by (simp add: permutes_vals_def)
  qed
  then have "list_all (ok_entry h0) (fst (shuffle_fn (seed_fn s) ts))"
    using ok by (simp add: list_all_iff)
  from scored_inv_update[OF inv this] show ?thesis
    by (simp add: shuffle_in_place_def Some ts split_beta set_list_some[OF ts])
qed

lemma those_untuple:
  "list_all (ok_entry h0) vs \<Longrightarrow> \<exists>ts. those (map untuple vs) = Some ts"
  by (induction vs) (auto simp: ok_entry_def split: option.splits)

lemma sort_inv:
  assumes inv: "scored_inv h0 h"
  shows "\<exists>h'. sort_in_place (length h0) h = Some h' \<and> scored_inv h0 h'"
proof -
  from inv obtain ts where ts: "get_list h (length h0) = Some ts"
    and ok: "list_all (ok_entry h0) ts"
    by (auto simp: scored_inv_def split: option.splits)
  obtain us where us: "those (map untuple ts) = Some us"
    using those_untuple[OF ok] by blast
  have "list_all (ok_entry h0) (sort_key (\<lambda>v. - fst (the (untuple v))) ts)"
    using ok by (simp add: list_all_iff)
  from scored_inv_update[OF inv this] show ?thesis
    by (simp add: sort_in_place_def ts us set_list_some[OF ts])
qed

lemma package_step_inv:
  assumes inv: "out_inv h0 tp tops out h" and ok: "ok_entry h0 v"
    and ne: "tp \<noteq> out" and ge: "length h0 \<le> out"
  shows "\<exists>h'. package_step out v h = Some h' \<and> out_inv h0 tp tops out h'"
proof -
  from inv obtain os where p: "prefix h0 h" and t: "get_list h tp = Some tops"
    and o: "get_list h out = Some os"
    by (auto simp: out_inv_def)
  from ok obtain s m r f ob where u: "untuple v = Some (s, m, r, f)"
    and ob0: "get_meal h0 m = Some ob"
    by (auto simp: ok_entry_def split: option.splits)
  note ob = get_meal_prefix[OF p ob0]
  define d1 where "d1 = DictCell
     [(''calories'', VInt (o_calories ob)), (''protein_g'', VInt (o_protein_g ob)),
      (''carbs_g'', VInt (o_carbs_g ob)), (''fat_g'', VInt (o_fat_g ob))]"
  define d2 where "d2 = DictCell
     [(''name'', VStr (o_name ob)), (''items'', VRef (o_items ob)),
      (''macros'', VRef (length h)), (''sodium_mg'', VInt (o_sodium_mg ob)),
      (''score'', VInt s), (''reasons'', VRef r), (''flags'', VRef f)]"
  define h1 where "h1 = h @ [d1, d2]"
  have p1: "prefix h h1" by (simp add: h1_def)
  note o1 = get_list_prefix[OF p1 o]
  define h2 where "h2 = h1[out := ListCell (os @ [VRef (length h + 1)])]"
  have "package_step out v h = Some h2"
    by (simp add: package_step_def u ob alloc_def list_append_def h2_def h1_def d1_def d2_def
        o1[unfolded h1_def d1_def d2_def, simplified])
  moreover have "out_inv h0 tp tops out h2"
    unfolding out_inv_def h2_def
    using prefix_update[OF prefix_order.trans[OF p p1] ge] get_list_prefix[OF p1 t]
      get_list_bound[OF o1] ne
    by (simp add: get_list_update_other get_list_update_same)
  ultimately show ?thesis by simp
qed

lemma package_inv:
  assumes inv: "scored_inv h0 h"
  shows "\<exists>out h'. package_top (length h0) k h = Some (out, h') \<and> prefix h0 h'"
proof -
  from inv obtain ts where p: "prefix h0 h" and ts: "get_list h (length h0) = Some ts"
    and ok: "list_all (ok_entry h0) ts"
    by (auto simp: scored_inv_def split: option.splits)
  define tops where "tops = slice_to k ts"
  define tp where "tp = length h"
  define out where "out = length h + 1"
  define h1 where "h1 = h @ [ListCell tops, ListCell []]"
  have le: "length h0 \<le> length h" using p by (rule prefix_length_le)
  have i1: "out_inv h0 tp tops out h1"
    by (simp add: out_inv_def h1_def tp_def out_def get_list_def lookup_def nth_append
        prefix_order.trans[OF p])
  have okt: "ok_entry h0 v" if "v \<in> set tops" for v
    using that ok set_slice_to[of k ts] by (auto simp: tops_def list_all_iff)
  have "\<exists>h'. for_each tp (package_step out) 0 h1 = Some h' \<and> out_inv h0 tp tops out h'"
  proof (rule for_each_inv[where I = "out_inv h0 tp tops out" and vs = tops, OF i1])
    fix h assume "out_inv h0 tp tops out h"
    then show "get_list h tp = Some tops" by (simp add: out_inv_def)
  next
    fix h v assume "out_inv h0 tp tops out h" "v \<in> set tops"
    then show "\<exists>h'. package_step out v h = Some h' \<and> out_inv h0 tp tops out h'"
      using package_step_inv[of h0 tp tops out h v] okt le by (simp add: tp_def out_def)
  qed
  then obtain h2 where "for_each tp (package_step out) 0 h1 = Some h2" "prefix h0 h2"
    by (auto simp: out_inv_def)
  then show ?thesis
    by (simp add: package_top_def ts alloc_def tops_def[symmetric] h1_def tp_def out_def)
qed

lemma recommend_h_frame:
  assumes ok: "catalog_ok h c" and perm: "permutes_vals shuffle_fn"
  shows "\<exists>res h' g'. recommend_h seed_fn shuffle_fn c ans k seed (h, g) = Some (res, h', g') \<and>
           prefix h h'"
proof -
  obtain h1 where l1: "for_each c (score_step ans (length h)) 0 (h @ [ListCell []]) = Some h1"
    and i1: "scored_inv h h1"
    using first_loop[OF ok, of ans] by blast
  from i1 obtain ts where p1: "prefix h h1" and ts: "get_list h1 (length h) = Some ts"
    by (auto simp: scored_inv_def split: option.splits)
  show ?thesis
  proof (cases "ts = []")
    case True
    then show ?thesis
      using p1 by (simp add: recommend_h_def alloc_def l1 ts prefix_order.trans[OF p1])
  next
    case False
    obtain h2 g2 where s2: "shuffle_in_place seed_fn shuffle_fn (length h) seed (h1, g) = Some (h2, g2)"
      and i2: "scored_inv h h2"
      using shuffle_inv[OF i1 perm, of seed_fn seed g] by blast
    obtain h3 where s3: "sort_in_place (length h) h2 = Some h3" and i3: "scored_inv h h3"
      using sort_inv[OF i2] by blast
    obtain out h4 where s4: "package_top (length h) k h3 = Some (out, h4)" and p4: "prefix h h4"
      using package_inv[OF i3, of k] by blast
    show ?thesis
      using False by (simp add: recommend_h_def alloc_def l1 ts s2 s3 s4 prefix_order.trans[OF p4])
  qed
qed

subsection \<open>The catalog in the store\<close>

lemma prefix_take: "prefix h h' \<Longrightarrow> take (length h) h' = h"
  by (auto simp: prefix_def)

lemma catalog_ok_prefix:
  assumes "prefix h h'" and "catalog_ok h c"
  shows "catalog_ok h' c"
proof -
  from catalog_okD[OF assms(2)] obtain ms where ms: "get_list h c = Some ms"
    and el: "\<forall>v \<in> set ms. \<exists>m meal. v = VRef m \<and> load_meal h m = Some meal"
    by blast
  have "meal_ref h' v" if "v \<in> set ms" for v
    using el that load_meal_prefix[OF assms(1)] by (fastforce simp: meal_ref_def)
  then show ?thesis
    by (simp add: catalog_ok_def get_list_prefix[OF assms(1) ms] list_all_iff)
qed

lemma store_meal_spec:
  assumes "store_meal meal h = (a, h')"
  shows "prefix h h' \<and> load_meal h' a = Some meal"
proof -
  define ob where "ob = \<lparr> o_name = name meal, o_items = length h, o_calories = calories meal,
      o_protein_g = protein_g meal, o_carbs_g = carbs_g meal, o_fat_g = fat_g meal,
      o_sodium_mg = sodium_mg meal, o_calcium_mg = calcium_mg meal,
      o_protein_type = protein_type meal, o_allergens = length h + 1,
      o_effort = Meal.effort meal, o_takeout_ok = takeout_ok meal,
      o_spice = spice meal, o_notes = length h + 2 \<rparr>"
  have h': "h' = h @ [ListCell (map VStr (items meal)), ListCell (map VStr (allergens meal)),
                      ListCell (map VStr (meal_notes meal)), MealCell ob]"
    and a: "a = length h + 3"
    using assms by (simp_all add: store_meal_def alloc_def ob_def)
  have "get_meal h' a = Some ob"
    by (simp add: h' a get_meal_def lookup_def nth_append)
  moreover have "get_strs h' (o_items ob) = Some (items meal)"
    "get_strs h' (o_allergens ob) = Some (allergens meal)"
    "get_strs h' (o_notes ob) = Some (meal_notes meal)"
    by (rule get_strs_list, simp add: h' ob_def get_list_def lookup_def nth_append)+
  ultimately have "load_meal h' a = Some meal"
    by (simp add: load_meal_def) (simp add: ob_def)
  then show ?thesis by (simp add: h')
qed

lemma store_meals_spec:
  "store_meals ms h = (as, h') \<Longrightarrow>
   prefix h h' \<and> list_all2 (\<lambda>a meal. load_meal h' a = Some meal) as ms"
proof (induction ms arbitrary: h as h')
  case Nil
  then show ?case by simp
next
  case (Cons meal ms)
  obtain a h1 where s1: "store_meal meal h = (a, h1)" by (cases "store_meal meal h")
  obtain as' h2 where s2: "store_meals ms h1 = (as', h2)" by (cases "store_meals ms h1")
  from Cons.prems have eq: "as = a # as'" "h' = h2" by (simp_all add: s1 s2)
  from store_meal_spec[OF s1] have p1: "prefix h h1" and l1: "load_meal h1 a = Some meal"
    by simp_all
  from Cons.IH[OF s2] have p2: "prefix h1 h2"
    and l2: "list_all2 (\<lambda>a meal. load_meal h2 a = Some meal) as' ms" by simp_all
  show ?case
    using prefix_order.trans[OF p1 p2] load_meal_prefix[OF p2 l1] l2 by (simp add: eq)
qed

lemma store_catalog_spec:
  assumes "store_catalog ms h = (c, h')"
  shows "prefix h h' \<and> catalog_ok h' c \<and>
         (\<exists>as. get_list h' c = Some (map VRef as) \<and>
               list_all2 (\<lambda>a meal. load_meal h' a = Some meal) as ms)"
proof -
  obtain as h1 where s: "store_meals ms h = (as, h1)" by (cases "store_meals ms h")
  from assms have h': "h' = h1 @ [ListCell (map VRef as)]" and c: "c = length h1"
    by (simp_all add: store_catalog_def s alloc_def)
  from store_meals_spec[OF s] have p: "prefix h h1"
    and l: "list_all2 (\<lambda>a meal. load_meal h1 a = Some meal) as ms" by simp_all
  have p1: "prefix h1 h'" by (simp add: h')
  have l': "list_all2 (\<lambda>a meal. load_meal h' a = Some meal) as ms"
    using l load_meal_prefix[OF p1] by (auto elim: list_all2_mono)
  have g: "get_list h' c = Some (map VRef as)"
    by (simp add: h' c get_list_last)
  have "list_all (meal_ref h') (map VRef as)"
    using l' by (auto simp: list_all_iff meal_ref_def list_all2_conv_all_nth in_set_conv_nth)
  then have "catalog_ok h' c" by (simp add: catalog_ok_def g)
  with prefix_order.trans[OF p p1] g l' show ?thesis by blast
qed

lemma initial_heap_ok: "catalog_ok initial_heap MEALS_addr"
  using store_catalog_spec[of MEALS "[]" MEALS_addr initial_heap]
  by (simp add: initial_heap_def MEALS_addr_def)

lemma initial_heap_salmon: "\<exists>m. load_meal initial_heap m = Some grilled_salmon_bowl"
proof -
  obtain as where "list_all2 (\<lambda>a meal. load_meal initial_heap a = Some meal) as MEALS"
    using store_catalog_spec[of MEALS "[]" MEALS_addr initial_heap]
    by (auto simp: initial_heap_def MEALS_addr_def)
  then show ?thesis
    by (auto simp: MEALS_def list_all2_Cons2)
qed

lemma demo_shuffle_permutes: "permutes_vals demo_shuffle"
  by (simp add: permutes_vals_def demo_shuffle_def)


subsection \<open>The catalog is not written\<close>

text \<open>
  \<^bold>\<open>C9.\<close> No side effects on catalog entries. Let the store hold the catalog: \<open>meals\<close> is
  the address of a list of references to meal objects. Then \<open>score_meal_h\<close> on any meal
  object of the store, and \<open>recommend_h\<close> for any answers, \<open>top_k\<close> and seed, return a
  result, and every cell that was in the store before the call is in it unchanged
  afterwards, at the same address: the call writes to the lists it has allocated itself
  (\<^verbatim>\<open>reasons\<close>, \<^verbatim>\<open>flags\<close>, \<^verbatim>\<open>scored\<close>, \<^verbatim>\<open>out\<close>) and to nothing else. In particular every
  meal object reads back as the same meal, with every field, the contents of its lists
  \<^verbatim>\<open>items\<close>, \<^verbatim>\<open>allergens\<close> and \<^verbatim>\<open>notes\<close> included, and the catalog is still a catalog.
  The score that \<open>score_meal_h\<close> returns is the score of \<open>score_meal\<close> on the meal read
  from the store.
\<close>

theorem no_side_effects_on_catalog:
  assumes "catalog_ok h c" and "permutes_vals shuffle_fn"
  shows "(\<forall>m meal. load_meal h m = Some meal \<longrightarrow>
            (\<exists>r f h'. score_meal_h m ans h = Some ((fst (score_meal meal ans), r, f), h') \<and>
               take (length h) h' = h \<and> load_meal h' m = Some meal)) \<and>
         (\<exists>res h' g'.
            recommend_h seed_fn shuffle_fn c ans top_k seed (h, g) = Some (res, h', g') \<and>
            take (length h) h' = h \<and> catalog_ok h' c \<and>
            (\<forall>m meal. load_meal h m = Some meal \<longrightarrow> load_meal h' m = Some meal))"
proof (intro conjI allI impI)
  fix m meal assume l: "load_meal h m = Some meal"
  obtain r f h' where "score_meal_h m ans h = Some ((fst (score_meal meal ans), r, f), h')"
    and "prefix h h'"
    using score_meal_h_spec[OF l, of ans] by blast
  then show "\<exists>r f h'. score_meal_h m ans h = Some ((fst (score_meal meal ans), r, f), h') \<and>
               take (length h) h' = h \<and> load_meal h' m = Some meal"
    using prefix_take load_meal_prefix[OF _ l] by blast
next
  obtain res h' g' where
    "recommend_h seed_fn shuffle_fn c ans top_k seed (h, g) = Some (res, h', g')"
    and p: "prefix h h'"
    using recommend_h_frame[OF assms, of seed_fn ans top_k seed g] by blast
  then show "\<exists>res h' g'.
            recommend_h seed_fn shuffle_fn c ans top_k seed (h, g) = Some (res, h', g') \<and>
            take (length h) h' = h \<and> catalog_ok h' c \<and>
            (\<forall>m meal. load_meal h m = Some meal \<longrightarrow> load_meal h' m = Some meal)"
    using prefix_take[OF p] catalog_ok_prefix[OF p assms(1)] load_meal_prefix[OF p] by blast
qed


theorem no_side_effects_on_catalog_witness:
  "catalog_ok initial_heap MEALS_addr \<and> permutes_vals demo_shuffle \<and>
   (\<exists>m. load_meal initial_heap m = Some grilled_salmon_bowl \<and>
     (\<exists>r f h'. score_meal_h m dairy_avoider initial_heap = Some ((- 999, r, f), h') \<and>
        take (length initial_heap) h' = initial_heap \<and>
        load_meal h' m = Some grilled_salmon_bowl)) \<and>
   (\<exists>res h' g'.
      recommend_h demo_seed demo_shuffle MEALS_addr neutral_answers 3 (Some 42)
        (initial_heap, 0) = Some (res, h', g') \<and>
      take (length initial_heap) h' = initial_heap \<and> catalog_ok h' MEALS_addr)"
proof -
  obtain m where m: "load_meal initial_heap m = Some grilled_salmon_bowl"
    using initial_heap_salmon by blast
  have s: "fst (score_meal grilled_salmon_bowl dairy_avoider) = - 999"
    by (simp add: score_meal_conflict[OF salmon_dairy_conflict])
  note t = no_side_effects_on_catalog[OF initial_heap_ok demo_shuffle_permutes]
  have "\<exists>r f h'. score_meal_h m dairy_avoider initial_heap = Some ((- 999, r, f), h') \<and>
        take (length initial_heap) h' = initial_heap \<and>
        load_meal h' m = Some grilled_salmon_bowl"
    using t[where ans = dairy_avoider, THEN conjunct1, rule_format, OF m] by (simp add: s)
  moreover have "\<exists>res h' g'.
      recommend_h demo_seed demo_shuffle MEALS_addr neutral_answers 3 (Some 42)
        (initial_heap, 0) = Some (res, h', g') \<and>
      take (length initial_heap) h' = initial_heap \<and> catalog_ok h' MEALS_addr"
    using t[where ans = neutral_answers and seed_fn = demo_seed and top_k = 3
        and seed = "Some 42" and g = 0, THEN conjunct2]
    by blast
  ultimately show ?thesis
    using m initial_heap_ok demo_shuffle_permutes by blast
qed

text \<open>
  The statement is one that a program can break: a statement that appended to a list
  of the store, the list of meals or a list of a meal, would leave a store that is not
  the old one below the old length.
\<close>

lemma write_is_seen:
  assumes "get_list h a = Some vs"
  shows "\<exists>h'. list_append a v h = Some h' \<and> take (length h) h' \<noteq> h"
proof -
  have a: "a < length h" and c: "h ! a = ListCell vs"
    using assms by (auto simp: get_list_def lookup_def split: if_splits option.splits cell.splits)
  have "h[a := ListCell (vs @ [v])] ! a \<noteq> h ! a"
    using a c by simp
  then have "h[a := ListCell (vs @ [v])] \<noteq> h" by metis
  then show ?thesis by (simp add: list_append_some[OF assms])
qed

end
